theory Spec2Isabelle
  imports Complex_Main
begin

section \<open>The procedural displacement engine of the beating-heart animation\<close>

text \<open>
  The repository holds two variants of the main script, each with a class
  \<^verbatim>\<open>HeartAnimation\<close> and a class \<^verbatim>\<open>SparkPoint\<close>: the longer one
  (\<^verbatim>\<open>src/unnamed/part_001\<close>, suffix \<open>_p1\<close> below) and the shorter one
  (\<^verbatim>\<open>src/unnamed/part_002\<close>, suffix \<open>_p2\<close>).

  Conventions of the embedding.
  \<^item> A JavaScript number is a \<^typ>\<open>real\<close>: the arithmetic is the exact one, so the
    rounding of doubles (and of the 32-bit cells of a \<^verbatim>\<open>Float32Array\<close>), infinities and
    NaN are outside the model.
  \<^item> The animated object \<^verbatim>\<open>beat = { a: 0 }\<close> is its field \<^verbatim>\<open>a\<close>.
  \<^item> An exception of the source is a value \<open>Inl e\<close>. A read of an array cell that does
    not exist gives \<^verbatim>\<open>undefined\<close> in JavaScript and the arithmetic goes on with NaN;
    the model stops there with \<open>Inl UndefinedOperand\<close>.
  \<^item> \<^verbatim>\<open>simplex.noise4D\<close> (the noise library is not part of the sources) is a
    parameter: any function of four numbers.
  \<^item> The position array of the mesh is the array of an attribute of item size 3 of the
    rendering library, so its length is a multiple of 3. A mesh is called loaded when
    \<^verbatim>\<open>this.heart\<close> is set, its position array holds whole vertices and
    \<^verbatim>\<open>originHeart\<close> is the copy of it that \<^verbatim>\<open>setupSampler\<close> took.
\<close>

datatype fault = TypeError | UndefinedOperand

type_synonym noise4D = "real \<Rightarrow> real \<Rightarrow> real \<Rightarrow> real \<Rightarrow> real"

subsection \<open>CONFIG and the constants computed from it\<close>

definition PARTICLE_COUNT :: nat where
  "PARTICLE_COUNT = 10000"

definition PARTICLE_RANDOM_FACTOR :: real where
  "PARTICLE_RANDOM_FACTOR = 0.03"

definition NOISE_SCALE :: real where
  "NOISE_SCALE = 1.5"

definition NOISE_FREQUENCY :: real where
  "NOISE_FREQUENCY = 500"

definition NOISE_AMPLITUDE :: real where
  "NOISE_AMPLITUDE = 0.15"

definition MAX_Z :: real where
  "MAX_Z = 0.23"

definition RATE_Z :: real where
  "RATE_Z = 0.5"

definition PARTICLE_COUNT_6 :: nat where
  "PARTICLE_COUNT_6 = PARTICLE_COUNT * 6"

definition MAX_Z_RATE_Z :: real where
  "MAX_Z_RATE_Z = MAX_Z * RATE_Z"

definition NOISE_SCALE_AMPLITUDE :: real where
  "NOISE_SCALE_AMPLITUDE = NOISE_SCALE * NOISE_AMPLITUDE"

subsection \<open>Vectors and colours of the rendering library\<close>

record Vector3 =
  x :: real
  y :: real
  z :: real

record Color =
  r :: real
  g :: real
  b :: real

text \<open>
  Modelled from the spec: \<^verbatim>\<open>Vector3.clone\<close> belongs to the rendering library
  (\<^verbatim>\<open>assets/js/three.min.js\<close>), which is not among the sources. The specification
  takes the near and the far position from the origin and keeps the origin as it is: a
  clone is a fresh vector with the same components.
\<close>

definition clone :: "Vector3 \<Rightarrow> Vector3" where
  "clone v = \<lparr>x = x v, y = y v, z = z v\<rparr>"

text \<open>
  Modelled from the spec: \<^verbatim>\<open>Vector3.multiplyScalar\<close> belongs to the rendering library
  as well. The specification writes its result as "origin position \<open>\<times>\<close> scale factor
  (uniform per-axis scaling from the origin, not an offset)": every component is
  multiplied by the scalar.
\<close>

definition multiplyScalar :: "real \<Rightarrow> Vector3 \<Rightarrow> Vector3" where
  "multiplyScalar s v = \<lparr>x = x v * s, y = y v * s, z = z v * s\<rparr>"

subsection \<open>SparkPoint\<close>

text \<open>
  \<open>color\<close> is \<open>None\<close> when the palette lookup of the constructor gave \<^verbatim>\<open>undefined\<close>;
  \<open>one\<close> and \<open>two\<close> are \<open>None\<close> while they are \<^verbatim>\<open>null\<close>.
\<close>

record SparkPoint =
  color :: "Color option"
  rand :: real
  pos :: Vector3
  one :: "Vector3 option"
  two :: "Vector3 option"
  simplex :: noise4D

text \<open>
  The constructor. \<open>sampled\<close> is the point \<^verbatim>\<open>sampler.sample(pos)\<close> wrote into the shared
  vector, \<open>u1\<close> and \<open>u2\<close> are the results of its two calls of \<^verbatim>\<open>Math.random()\<close>.
\<close>

definition SparkPoint_new :: "Color list \<Rightarrow> noise4D \<Rightarrow> Vector3 \<Rightarrow> real \<Rightarrow> real \<Rightarrow> SparkPoint" where
  "SparkPoint_new pal sx sampled u1 u2 =
     \<lparr>color = (let k = \<lfloor>u1 * real (length pal)\<rfloor>
               in if 0 \<le> k \<and> nat k < length pal then Some (pal ! nat k) else None),
      rand = u2 * PARTICLE_RANDOM_FACTOR,
      pos = clone sampled,
      one = None,
      two = None,
      simplex = sx\<rparr>"

definition SparkPoint_update_p1 :: "real \<Rightarrow> SparkPoint \<Rightarrow> SparkPoint" where
  "SparkPoint_update_p1 beat_a this =
     (let noise = simplex this (x (pos this) * 1) (y (pos this) * 1) (z (pos this) * 1) 0.1 + 1.5;
          noise2 = simplex this (x (pos this) * NOISE_FREQUENCY) (y (pos this) * NOISE_FREQUENCY)
                     (z (pos this) * NOISE_FREQUENCY) 1 + 1
      in this
         \<lparr>one := Some (multiplyScalar (1.01 + noise * NOISE_SCALE_AMPLITUDE * beat_a) (clone (pos this))),
          two := Some (multiplyScalar (1 + noise2 * (beat_a + 0.3) - beat_a * 1.2) (clone (pos this)))\<rparr>)"

definition SparkPoint_update_p2 :: "real \<Rightarrow> SparkPoint \<Rightarrow> SparkPoint" where
  "SparkPoint_update_p2 beat_a this =
     (let noise = simplex this (x (pos this) * 1) (y (pos this) * 1) (z (pos this) * 1) 0.1 + 1.5;
          noise2 = simplex this (x (pos this) * NOISE_FREQUENCY) (y (pos this) * NOISE_FREQUENCY)
                     (z (pos this) * NOISE_FREQUENCY) 1 + 1
      in this
         \<lparr>one := Some (multiplyScalar (1.01 + noise * NOISE_AMPLITUDE * beat_a) (clone (pos this))),
          two := Some (multiplyScalar (1 + noise2 * (beat_a + 0.3) - beat_a * 1.2) (clone (pos this)))\<rparr>)"

subsection \<open>The depth-window tests of updateParticles\<close>

text \<open>
  The two conditions of the loop body, on the spark's \<^verbatim>\<open>rand\<close> and the vector
  \<^verbatim>\<open>spike.one\<close>. Both read \<^verbatim>\<open>one.z\<close>.
\<close>

definition layer1_visible_p1 :: "real \<Rightarrow> Vector3 \<Rightarrow> bool" where
  "layer1_visible_p1 rnd v1 = (MAX_Z_RATE_Z + rnd > z v1 \<and> z v1 > - MAX_Z_RATE_Z - rnd)"

definition layer2_visible_p1 :: "real \<Rightarrow> Vector3 \<Rightarrow> bool" where
  "layer2_visible_p1 rnd v1 = (MAX_Z_RATE_Z + rnd * 2 > z v1 \<and> z v1 > - MAX_Z_RATE_Z - rnd * 2)"

definition layer1_visible_p2 :: "real \<Rightarrow> Vector3 \<Rightarrow> bool" where
  "layer1_visible_p2 rnd v1 = (MAX_Z * RATE_Z + rnd > z v1 \<and> z v1 > - MAX_Z * RATE_Z - rnd)"

definition layer2_visible_p2 :: "real \<Rightarrow> Vector3 \<Rightarrow> bool" where
  "layer2_visible_p2 rnd v1 = (MAX_Z * RATE_Z + rnd * 2 > z v1 \<and> z v1 > - MAX_Z * RATE_Z - rnd * 2)"

subsection \<open>HeartAnimation: the fields the frame update reads and writes\<close>

text \<open>
  \<open>heart\<close> is \<open>None\<close> while \<^verbatim>\<open>this.heart\<close> is \<^verbatim>\<open>null\<close>, and otherwise the array
  \<^verbatim>\<open>this.heart.geometry.attributes.position.array\<close> (called \<^verbatim>\<open>vs\<close> in the source).
  \<open>originHeart\<close> is \<open>None\<close> while it is \<^verbatim>\<open>null\<close>. \<open>beat\<close> is \<^verbatim>\<open>this.beat.a\<close>.
  \<open>geometry_position\<close> and \<open>geometry_color\<close> are the arrays of the attributes
  \<^verbatim>\<open>"position"\<close> and \<^verbatim>\<open>"color"\<close> of \<^verbatim>\<open>this.geometry\<close>, \<open>None\<close> before the first
  \<^verbatim>\<open>setAttribute\<close>.
\<close>

record HeartAnimation =
  heart :: "real list option"
  originHeart :: "real list option"
  spikes :: "SparkPoint list"
  positions :: "real list"
  colors :: "real list"
  beat :: real
  simplex :: noise4D
  palette :: "Color list"
  isAnimating :: bool
  geometry_position :: "real list option"
  geometry_color :: "real list option"

text \<open>
  The constructor, for the fields above: \<open>sx\<close> is the new \<^verbatim>\<open>SimplexNoise()\<close> and
  \<open>pal\<close> the colours made from \<^verbatim>\<open>CONFIG.COLORS\<close>. In \<^verbatim>\<open>part_001\<close> the two render
  buffers are \<^verbatim>\<open>new Float32Array(PARTICLE_COUNT_6)\<close>, filled with zeros; in
  \<^verbatim>\<open>part_002\<close> they are empty arrays.
\<close>

definition HeartAnimation_new_p1 :: "noise4D \<Rightarrow> Color list \<Rightarrow> HeartAnimation" where
  "HeartAnimation_new_p1 sx pal =
     \<lparr>heart = None, originHeart = None, spikes = [],
      positions = replicate PARTICLE_COUNT_6 0, colors = replicate PARTICLE_COUNT_6 0,
      beat = 0, simplex = sx, palette = pal, isAnimating = False,
      geometry_position = None, geometry_color = None\<rparr>"

definition HeartAnimation_new_p2 :: "noise4D \<Rightarrow> Color list \<Rightarrow> HeartAnimation" where
  "HeartAnimation_new_p2 sx pal =
     \<lparr>heart = None, originHeart = None, spikes = [],
      positions = [], colors = [],
      beat = 0, simplex = sx, palette = pal, isAnimating = False,
      geometry_position = None, geometry_color = None\<rparr>"

subsection \<open>updateParticles\<close>

text \<open>
  The render buffers in flight: the position buffer, the colour buffer and, in
  \<^verbatim>\<open>part_001\<close>, the two write indices \<^verbatim>\<open>posIdx\<close> and \<^verbatim>\<open>colorIdx\<close>.

  In \<^verbatim>\<open>part_001\<close> the buffers are the two \<^verbatim>\<open>Float32Array\<close>s allocated by the
  constructor. A typed array has a fixed length and ignores a write past its end, which is
  what \<open>xs[i := v]\<close> does on a list. Reading \<^verbatim>\<open>color.r\<close> of an undefined colour throws,
  after the three positions have been written.
\<close>

definition writeLayer_p1 ::
  "Vector3 \<Rightarrow> Color option \<Rightarrow> real list \<times> real list \<times> nat \<times> nat
     \<Rightarrow> fault + (real list \<times> real list \<times> nat \<times> nat)" where
  "writeLayer_p1 v c bufs =
     (case bufs of (ps, cs, posIdx, colorIdx) \<Rightarrow>
        (case c of
           None \<Rightarrow> Inl TypeError
         | Some col \<Rightarrow>
             Inr (ps[posIdx := x v, posIdx + 1 := y v, posIdx + 2 := z v],
                  cs[colorIdx := r col, colorIdx + 1 := g col, colorIdx + 2 := b col],
                  posIdx + 3, colorIdx + 3)))"

text \<open>
  One iteration of the loop over \<^verbatim>\<open>spikes\<close>: \<^verbatim>\<open>spike.update(beat)\<close>, then the two
  layers. \<^verbatim>\<open>one.z\<close> is read by the first condition, \<^verbatim>\<open>two.x\<close> only inside the second
  branch.
\<close>

definition particleStep_p1 ::
  "real \<Rightarrow> SparkPoint \<Rightarrow> real list \<times> real list \<times> nat \<times> nat
     \<Rightarrow> fault + (SparkPoint \<times> real list \<times> real list \<times> nat \<times> nat)" where
  "particleStep_p1 beat_a spike bufs =
     (let spike' = SparkPoint_update_p1 beat_a spike in
      case one spike' of
        None \<Rightarrow> Inl TypeError
      | Some v1 \<Rightarrow>
          (case (if layer1_visible_p1 (rand spike') v1
                 then writeLayer_p1 v1 (color spike') bufs else Inr bufs) of
             Inl e \<Rightarrow> Inl e
           | Inr bufs1 \<Rightarrow>
               (case (if layer2_visible_p1 (rand spike') v1
                      then (case two spike' of
                              None \<Rightarrow> Inl TypeError
                            | Some v2 \<Rightarrow> writeLayer_p1 v2 (color spike') bufs1)
                      else Inr bufs1) of
                  Inl e \<Rightarrow> Inl e
                | Inr bufs2 \<Rightarrow> Inr (spike', bufs2))))"

fun particleLoop_p1 ::
  "real \<Rightarrow> SparkPoint list \<Rightarrow> real list \<times> real list \<times> nat \<times> nat
     \<Rightarrow> fault + (SparkPoint list \<times> real list \<times> real list \<times> nat \<times> nat)" where
  "particleLoop_p1 beat_a [] bufs = Inr ([], bufs)"
| "particleLoop_p1 beat_a (spike # rest) bufs =
     (case particleStep_p1 beat_a spike bufs of
        Inl e \<Rightarrow> Inl e
      | Inr (spike', bufs') \<Rightarrow>
          (case particleLoop_p1 beat_a rest bufs' of
             Inl e \<Rightarrow> Inl e
           | Inr (rest', bufs'') \<Rightarrow> Inr (spike' # rest', bufs'')))"

text \<open>
  \<^verbatim>\<open>positions.subarray(0, posIdx)\<close> is the prefix of the buffer, cut at the buffer's
  length: \<open>take\<close>. (The subarray shares the buffer; the attribute is replaced at the end
  of every frame, and the model records its content at that moment.)
\<close>

definition updateParticles_p1 :: "HeartAnimation \<Rightarrow> fault + HeartAnimation" where
  "updateParticles_p1 this =
     (case particleLoop_p1 (beat this) (spikes this) (positions this, colors this, 0, 0) of
        Inl e \<Rightarrow> Inl e
      | Inr (spikes', ps, cs, posIdx, colorIdx) \<Rightarrow>
          Inr (this\<lparr>spikes := spikes', positions := ps, colors := cs,
                    geometry_position := Some (take posIdx ps),
                    geometry_color := Some (take colorIdx cs)\<rparr>))"

text \<open>
  In \<^verbatim>\<open>part_002\<close> the two buffers are plain arrays, emptied at the start of the frame
  and grown by \<^verbatim>\<open>push\<close>; the attributes get a copy of them.
\<close>

definition pushLayer_p2 ::
  "Vector3 \<Rightarrow> Color option \<Rightarrow> real list \<times> real list \<Rightarrow> fault + (real list \<times> real list)" where
  "pushLayer_p2 v c bufs =
     (case bufs of (ps, cs) \<Rightarrow>
        (case c of
           None \<Rightarrow> Inl TypeError
         | Some col \<Rightarrow> Inr (ps @ [x v, y v, z v], cs @ [r col, g col, b col])))"

definition particleStep_p2 ::
  "real \<Rightarrow> SparkPoint \<Rightarrow> real list \<times> real list
     \<Rightarrow> fault + (SparkPoint \<times> real list \<times> real list)" where
  "particleStep_p2 beat_a spike bufs =
     (let spike' = SparkPoint_update_p2 beat_a spike in
      case one spike' of
        None \<Rightarrow> Inl TypeError
      | Some v1 \<Rightarrow>
          (case (if layer1_visible_p2 (rand spike') v1
                 then pushLayer_p2 v1 (color spike') bufs else Inr bufs) of
             Inl e \<Rightarrow> Inl e
           | Inr bufs1 \<Rightarrow>
               (case (if layer2_visible_p2 (rand spike') v1
                      then (case two spike' of
                              None \<Rightarrow> Inl TypeError
                            | Some v2 \<Rightarrow> pushLayer_p2 v2 (color spike') bufs1)
                      else Inr bufs1) of
                  Inl e \<Rightarrow> Inl e
                | Inr bufs2 \<Rightarrow> Inr (spike', bufs2))))"

fun particleLoop_p2 ::
  "real \<Rightarrow> SparkPoint list \<Rightarrow> real list \<times> real list
     \<Rightarrow> fault + (SparkPoint list \<times> real list \<times> real list)" where
  "particleLoop_p2 beat_a [] bufs = Inr ([], bufs)"
| "particleLoop_p2 beat_a (spike # rest) bufs =
     (case particleStep_p2 beat_a spike bufs of
        Inl e \<Rightarrow> Inl e
      | Inr (spike', bufs') \<Rightarrow>
          (case particleLoop_p2 beat_a rest bufs' of
             Inl e \<Rightarrow> Inl e
           | Inr (rest', bufs'') \<Rightarrow> Inr (spike' # rest', bufs'')))"

definition updateParticles_p2 :: "HeartAnimation \<Rightarrow> fault + HeartAnimation" where
  "updateParticles_p2 this =
     (case particleLoop_p2 (beat this) (spikes this) ([], []) of
        Inl e \<Rightarrow> Inl e
      | Inr (spikes', ps, cs) \<Rightarrow>
          Inr (this\<lparr>spikes := spikes', positions := ps, colors := cs,
                    geometry_position := Some ps,
                    geometry_color := Some cs\<rparr>))"

subsection \<open>updateHeartGeometry\<close>

text \<open>
  The loop \<^verbatim>\<open>for (i = 0; i < vs.length; i += 3)\<close>. It reads three cells of
  \<^verbatim>\<open>originHeart\<close> and writes three cells of \<^verbatim>\<open>vs\<close> (a \<^verbatim>\<open>Float32Array\<close>: a
  write past its end is ignored).
\<close>

function heartLoop_p1 ::
  "noise4D \<Rightarrow> real \<Rightarrow> real \<Rightarrow> real list option \<Rightarrow> nat \<Rightarrow> real list \<Rightarrow> fault + real list" where
  "heartLoop_p1 sx timeFactor beat_a origin i vs =
     (if i < length vs then
        (case origin of
           None \<Rightarrow> Inl TypeError
         | Some oh \<Rightarrow>
             if i + 2 < length oh then
               (let x0 = oh ! i; y0 = oh ! (i + 1); z0 = oh ! (i + 2);
                    noise = sx (x0 * NOISE_SCALE) (y0 * NOISE_SCALE) (z0 * NOISE_SCALE) timeFactor + 1;
                    scale = noise * NOISE_SCALE_AMPLITUDE * beat_a
                in heartLoop_p1 sx timeFactor beat_a origin (i + 3)
                     (vs[i := x0 * scale, i + 1 := y0 * scale, i + 2 := z0 * scale]))
             else Inl UndefinedOperand)
      else Inr vs)"
  by pat_completeness auto
termination
  by (relation "measure (\<lambda>(sx, timeFactor, beat_a, origin, i, vs). length vs - i)") auto

definition updateHeartGeometry_p1 :: "real \<Rightarrow> HeartAnimation \<Rightarrow> fault + HeartAnimation" where
  "updateHeartGeometry_p1 time this =
     (case heart this of
        None \<Rightarrow> Inl TypeError
      | Some vs \<Rightarrow>
          (case heartLoop_p1 (simplex this) (time * 0.0005) (beat this) (originHeart this) 0 vs of
             Inl e \<Rightarrow> Inl e
           | Inr vs' \<Rightarrow> Inr (this\<lparr>heart := Some vs'\<rparr>)))"

function heartLoop_p2 ::
  "noise4D \<Rightarrow> real \<Rightarrow> real \<Rightarrow> real list option \<Rightarrow> nat \<Rightarrow> real list \<Rightarrow> fault + real list" where
  "heartLoop_p2 sx time beat_a origin i vs =
     (if i < length vs then
        (case origin of
           None \<Rightarrow> Inl TypeError
         | Some oh \<Rightarrow>
             if i + 2 < length oh then
               (let v = \<lparr>x = oh ! i, y = oh ! (i + 1), z = oh ! (i + 2)\<rparr>;
                    noise = sx (oh ! i * NOISE_SCALE) (oh ! (i + 1) * NOISE_SCALE)
                              (oh ! (i + 2) * NOISE_SCALE) (time * 0.0005) + 1;
                    v' = multiplyScalar (noise * NOISE_AMPLITUDE * beat_a) v
                in heartLoop_p2 sx time beat_a origin (i + 3)
                     (vs[i := x v', i + 1 := y v', i + 2 := z v']))
             else Inl UndefinedOperand)
      else Inr vs)"
  by pat_completeness auto
termination
  by (relation "measure (\<lambda>(sx, time, beat_a, origin, i, vs). length vs - i)") auto

definition updateHeartGeometry_p2 :: "real \<Rightarrow> HeartAnimation \<Rightarrow> fault + HeartAnimation" where
  "updateHeartGeometry_p2 time this =
     (case heart this of
        None \<Rightarrow> Inl TypeError
      | Some vs \<Rightarrow>
          (case heartLoop_p2 (simplex this) time (beat this) (originHeart this) 0 vs of
             Inl e \<Rightarrow> Inl e
           | Inr vs' \<Rightarrow> Inr (this\<lparr>heart := Some vs'\<rparr>)))"

subsection \<open>render, setupSampler, initParticles\<close>

text \<open>
  \<open>hidden\<close> is \<^verbatim>\<open>document.hidden\<close>, which only \<^verbatim>\<open>part_001\<close> reads. The camera
  controls and the renderer do not touch the fields of the model.
\<close>

definition render_p1 :: "bool \<Rightarrow> real \<Rightarrow> HeartAnimation \<Rightarrow> fault + HeartAnimation" where
  "render_p1 hidden time this =
     (if \<not> isAnimating this \<or> heart this = None then Inr this
      else if hidden then Inr this
      else (case updateParticles_p1 this of
              Inl e \<Rightarrow> Inl e
            | Inr this' \<Rightarrow> updateHeartGeometry_p1 time this'))"

definition render_p2 :: "real \<Rightarrow> HeartAnimation \<Rightarrow> fault + HeartAnimation" where
  "render_p2 time this =
     (if \<not> isAnimating this \<or> heart this = None then Inr this
      else (case updateParticles_p2 this of
              Inl e \<Rightarrow> Inl e
            | Inr this' \<Rightarrow> updateHeartGeometry_p2 time this'))"

text \<open>
  \<^verbatim>\<open>Array.from\<close> copies the position array (the same in both variants). Building the
  surface sampler belongs to the rendering library.
\<close>

definition setupSampler :: "HeartAnimation \<Rightarrow> fault + HeartAnimation" where
  "setupSampler this =
     (case heart this of
        None \<Rightarrow> Inl TypeError
      | Some vs \<Rightarrow> Inr (this\<lparr>originHeart := Some vs\<rparr>))"

text \<open>
  \<open>draws i\<close> is what the \<open>i\<close>-th constructor call gets from outside: the sampled point
  and its two random numbers (the same in both variants).
\<close>

definition initParticles :: "(nat \<Rightarrow> Vector3 \<times> real \<times> real) \<Rightarrow> HeartAnimation \<Rightarrow> HeartAnimation" where
  "initParticles draws this =
     this\<lparr>spikes :=
       map (\<lambda>i. case draws i of (sampled, u1, u2) \<Rightarrow>
                  SparkPoint_new (palette this) (simplex this) sampled u1 u2)
           [0..<PARTICLE_COUNT]\<rparr>"

subsection \<open>The frames of the heart\<close>

text \<open>
  The animation loop calls \<^verbatim>\<open>updateHeartGeometry(time)\<close> once per frame, and between two
  frames the tween writes \<^verbatim>\<open>beat.a\<close>. A run of frames is the list of the pairs
  \<open>(time, beat.a)\<close> its frames see.
\<close>

fun heartFrames_p1 :: "(real \<times> real) list \<Rightarrow> HeartAnimation \<Rightarrow> fault + HeartAnimation" where
  "heartFrames_p1 [] this = Inr this"
| "heartFrames_p1 ((time, bt) # frames) this =
     (case updateHeartGeometry_p1 time (this\<lparr>beat := bt\<rparr>) of
        Inl e \<Rightarrow> Inl e
      | Inr this' \<Rightarrow> heartFrames_p1 frames this')"

fun heartFrames_p2 :: "(real \<times> real) list \<Rightarrow> HeartAnimation \<Rightarrow> fault + HeartAnimation" where
  "heartFrames_p2 [] this = Inr this"
| "heartFrames_p2 ((time, bt) # frames) this =
     (case updateHeartGeometry_p2 time (this\<lparr>beat := bt\<rparr>) of
        Inl e \<Rightarrow> Inl e
      | Inr this' \<Rightarrow> heartFrames_p2 frames this')"

subsection \<open>The error display and onHeartError\<close>

text \<open>
  The part of the page the two error handlers touch. An element the page does not have is
  \<open>None\<close>. \<open>errorDisplay\<close> is the \<^verbatim>\<open>hidden\<close> flag of \<^verbatim>\<open>#error-display\<close>,
  \<open>errorMessage\<close> the text of \<^verbatim>\<open>#error-message\<close>, \<open>errorRetry\<close> the button
  \<^verbatim>\<open>#error-retry\<close> with its click handler and its \<^verbatim>\<open>style.display\<close>, \<open>loading\<close>
  the content of \<^verbatim>\<open>#loading\<close> as its lines of text, \<open>loaderRequests\<close> the number of
  calls of \<^verbatim>\<open>loader.load\<close> made so far. The two closures the source passes as
  \<^verbatim>\<open>retryCallback\<close> are \<^verbatim>\<open>() => { this.loadHeartModel(); }\<close> and
  \<^verbatim>\<open>() => { window.location.reload(); }\<close>.
\<close>

datatype callback = LoadHeartModel | ReloadPage

record ErrorRetryButton =
  onclick :: "callback option"
  display :: string

record Page =
  errorDisplay :: "bool option"
  errorMessage :: "string option"
  errorRetry :: "ErrorRetryButton option"
  loading :: "string list option"
  loaderRequests :: nat

text \<open>\<^verbatim>\<open>Utils.showError(message, retryCallback)\<close> of \<^verbatim>\<open>part_001\<close>.\<close>

definition Utils_showError :: "string \<Rightarrow> callback option \<Rightarrow> Page \<Rightarrow> Page" where
  "Utils_showError message retryCallback page =
     (if errorDisplay page \<noteq> None \<and> errorMessage page \<noteq> None then
        (let page' = page\<lparr>errorMessage := Some message, errorDisplay := Some False\<rparr> in
         case errorRetry page of
           None \<Rightarrow> page'
         | Some btn \<Rightarrow>
             (case retryCallback of
                Some cb \<Rightarrow> page'\<lparr>errorRetry := Some (btn\<lparr>onclick := Some cb, display := ''block''\<rparr>)\<rparr>
              | None \<Rightarrow> page'\<lparr>errorRetry := Some (btn\<lparr>display := ''none''\<rparr>)\<rparr>))
      else page)"

text \<open>
  \<^verbatim>\<open>loadHeartModel\<close> starts a request of the model; the progress bar and the screen-reader
  text it also updates are not part of \<open>Page\<close>.
\<close>

definition loadHeartModel :: "Page \<Rightarrow> Page" where
  "loadHeartModel page = page\<lparr>loaderRequests := loaderRequests page + 1\<rparr>"

definition onHeartError_p1 :: "Page \<Rightarrow> Page" where
  "onHeartError_p1 page =
     Utils_showError
       ''Failed to load heart model. Please check your internet connection and refresh the page.''
       (Some LoadHeartModel) page"

text \<open>
  A click on the retry button runs its handler, if it has one; a reload leaves the page
  (\<open>None\<close>).
\<close>

definition click_errorRetry :: "Page \<Rightarrow> Page option" where
  "click_errorRetry page =
     (case errorRetry page of
        None \<Rightarrow> Some page
      | Some btn \<Rightarrow>
          (case onclick btn of
             None \<Rightarrow> Some page
           | Some LoadHeartModel \<Rightarrow> Some (loadHeartModel page)
           | Some ReloadPage \<Rightarrow> None))"

text \<open>
  \<^verbatim>\<open>showError(message)\<close> of \<^verbatim>\<open>part_002\<close> replaces the content of \<^verbatim>\<open>#loading\<close> by
  two lines of text: the message and a fixed sentence.
\<close>

definition showError_p2 :: "string \<Rightarrow> Page \<Rightarrow> Page" where
  "showError_p2 message page =
     (case loading page of
        None \<Rightarrow> page
      | Some content \<Rightarrow> page\<lparr>loading := Some [message, ''Please refresh the page to try again.'']\<rparr>)"

definition onHeartError_p2 :: "Page \<Rightarrow> Page" where
  "onHeartError_p2 page = showError_p2 ''Failed to load heart model'' page"

section \<open>What the specification says, in its own words\<close>

text \<open>
  The definitions of this section follow the sentences of the specification, not the code;
  the theorems below compare them with the functions above.
\<close>

text \<open>
  The scale factor of a mesh vertex (section 4.1):
  \<open>(noise4D(x S, y S, z S, t k) + 1) \<times> (noise_scale \<times> noise_amplitude) \<times> beat\<close>, with the
  source's \<open>k = 0.0005\<close>.
\<close>

definition spec_scale :: "noise4D \<Rightarrow> real \<Rightarrow> real \<Rightarrow> real \<Rightarrow> real \<Rightarrow> real \<Rightarrow> real" where
  "spec_scale sx px py pz time bt =
     (sx (px * NOISE_SCALE) (py * NOISE_SCALE) (pz * NOISE_SCALE) (time * 0.0005) + 1)
       * (NOISE_SCALE * NOISE_AMPLITUDE) * bt"

text \<open>The \<open>k\<close>-th vertex of a flat buffer of coordinates.\<close>

definition vertex :: "real list \<Rightarrow> nat \<Rightarrow> Vector3" where
  "vertex buf k = \<lparr>x = buf ! (3 * k), y = buf ! (3 * k + 1), z = buf ! (3 * k + 2)\<rparr>"

text \<open>The per-frame update of a spark (section 4.2).\<close>

definition spec_noise1 :: "noise4D \<Rightarrow> Vector3 \<Rightarrow> real" where
  "spec_noise1 sx p = sx (x p) (y p) (z p) 0.1 + 1.5"

definition spec_noise2 :: "noise4D \<Rightarrow> Vector3 \<Rightarrow> real" where
  "spec_noise2 sx p = sx (x p * NOISE_FREQUENCY) (y p * NOISE_FREQUENCY) (z p * NOISE_FREQUENCY) 1 + 1"

definition spec_near :: "noise4D \<Rightarrow> Vector3 \<Rightarrow> real \<Rightarrow> Vector3" where
  "spec_near sx p bt = multiplyScalar (1.01 + spec_noise1 sx p * NOISE_SCALE * NOISE_AMPLITUDE * bt) p"

definition spec_far :: "noise4D \<Rightarrow> Vector3 \<Rightarrow> real \<Rightarrow> Vector3" where
  "spec_far sx p bt = multiplyScalar (1 + spec_noise2 sx p * (bt + 0.3) - bt * 1.2) p"

text \<open>A coordinate lies strictly within \<open>\<plusminus> w\<close>.\<close>

definition within_window :: "real \<Rightarrow> real \<Rightarrow> bool" where
  "within_window w c = (- w < c \<and> c < w)"

text \<open>
  The entries a spark contributes to the render buffer: its near layer when the near
  position's z lies within the window of factor 1, then its far layer when the near
  position's z lies within the window of factor 2, each with the spark's colour.
\<close>

definition spec_layers :: "Vector3 \<Rightarrow> Vector3 \<Rightarrow> real \<Rightarrow> Color \<Rightarrow> (Vector3 \<times> Color) list" where
  "spec_layers near far jitter col =
     (if within_window (MAX_Z * RATE_Z + 1 * jitter) (z near) then [(near, col)] else []) @
     (if within_window (MAX_Z * RATE_Z + 2 * jitter) (z near) then [(far, col)] else [])"

definition spec_spark_layers :: "SparkPoint \<Rightarrow> (Vector3 \<times> Color) list" where
  "spec_spark_layers s =
     (case one s of None \<Rightarrow> [] | Some near \<Rightarrow>
        (case two s of None \<Rightarrow> [] | Some far \<Rightarrow>
           (case color s of None \<Rightarrow> [] | Some col \<Rightarrow> spec_layers near far (rand s) col)))"

definition flat_positions :: "(Vector3 \<times> Color) list \<Rightarrow> real list" where
  "flat_positions es = concat (map (\<lambda>(v, c). [x v, y v, z v]) es)"

definition flat_colors :: "(Vector3 \<times> Color) list \<Rightarrow> real list" where
  "flat_colors es = concat (map (\<lambda>(v, c). [r c, g c, b c]) es)"

text \<open>
  The submitted buffers (section 6 and the fourth property of section 8): both present, of
  the same length, a length divisible by 3 and at most \<open>2 \<times> particle_count \<times> 3\<close>.
\<close>

definition submitted_ok :: "HeartAnimation \<Rightarrow> bool" where
  "submitted_ok this =
     (case geometry_position this of
        None \<Rightarrow> False
      | Some gp \<Rightarrow>
          (case geometry_color this of
             None \<Rightarrow> False
           | Some gc \<Rightarrow>
               length gp = length gc \<and> 3 dvd length gp \<and> length gp \<le> 2 * PARTICLE_COUNT * 3))"

text \<open>
  The failure is surfaced with an explicit retry action that re-invokes the fetch
  (sections 6 and 7): the retry button is shown and its handler loads the model again.
\<close>

definition retry_offered :: "Page \<Rightarrow> bool" where
  "retry_offered page =
     (case errorRetry page of
        None \<Rightarrow> False
      | Some btn \<Rightarrow> onclick btn = Some LoadHeartModel \<and> display btn = ''block'')"

section \<open>Auxiliary definitions\<close>

text \<open>
  The scale factor \<^verbatim>\<open>part_002\<close> computes for a mesh vertex: the one of the
  specification without the factor \<open>noise_scale\<close>.
\<close>

definition scale_p2 :: "noise4D \<Rightarrow> real \<Rightarrow> real \<Rightarrow> real \<Rightarrow> real \<Rightarrow> real \<Rightarrow> real" where
  "scale_p2 sx px py pz time bt =
     (sx (px * NOISE_SCALE) (py * NOISE_SCALE) (pz * NOISE_SCALE) (time * 0.0005) + 1)
       * NOISE_AMPLITUDE * bt"

text \<open>
  Cell \<open>j\<close> of a displaced buffer: the origin cell times the scale factor \<open>sc\<close> of the
  vertex the cell belongs to.
\<close>

definition displaced :: "(real \<Rightarrow> real \<Rightarrow> real \<Rightarrow> real) \<Rightarrow> real list \<Rightarrow> nat \<Rightarrow> real" where
  "displaced sc oh j =
     oh ! j * sc (oh ! (3 * (j div 3))) (oh ! (3 * (j div 3) + 1)) (oh ! (3 * (j div 3) + 2))"

section \<open>Concrete inputs\<close>

text \<open>
  Sparks under the noise function that is constantly \<open>0\<close>: one at \<open>(0, 0, 1)\<close> with
  jitter \<open>0\<close>, and three at depths \<open>0.1\<close>, \<open>0.11\<close> and \<open>1\<close> with jitter \<open>0.01\<close>. An
  animation at beat \<open>0.5\<close> with these three sparks, a mesh of the two vertices
  \<open>(1, 0, 0)\<close> and \<open>(0, 2, 0)\<close> and render buffers with room for three sparks; the same
  animation with the buffers the constructor of \<^verbatim>\<open>part_001\<close> allocates; a page that has
  all the elements of the error display.
\<close>

definition spark0 :: SparkPoint where
  "spark0 = \<lparr>color = Some \<lparr>r = 1, g = 1, b = 1\<rparr>, rand = 0, pos = \<lparr>x = 0, y = 0, z = 1\<rparr>,
             one = None, two = None, SparkPoint.simplex = (\<lambda>a1 a2 a3 a4. 0)\<rparr>"

definition demo_spark :: SparkPoint where
  "demo_spark =
     \<lparr>color = Some \<lparr>r = 1, g = 0, b = 0\<rparr>, rand = 1/100, pos = \<lparr>x = 0, y = 0, z = 1/10\<rparr>,
      one = None, two = None, SparkPoint.simplex = (\<lambda>a1 a2 a3 a4. 0)\<rparr>"

definition demo_spikes :: "SparkPoint list" where
  "demo_spikes =
     [demo_spark,
      \<lparr>color = Some \<lparr>r = 0, g = 1, b = 0\<rparr>, rand = 1/100, pos = \<lparr>x = 0, y = 0, z = 11/100\<rparr>,
       one = None, two = None, SparkPoint.simplex = (\<lambda>a1 a2 a3 a4. 0)\<rparr>,
      \<lparr>color = Some \<lparr>r = 0, g = 0, b = 1\<rparr>, rand = 1/100, pos = \<lparr>x = 0, y = 0, z = 1\<rparr>,
       one = None, two = None, SparkPoint.simplex = (\<lambda>a1 a2 a3 a4. 0)\<rparr>]"

definition demo_animation :: HeartAnimation where
  "demo_animation =
     \<lparr>heart = Some [1, 0, 0, 0, 2, 0], originHeart = Some [1, 0, 0, 0, 2, 0],
      spikes = demo_spikes, positions = replicate 18 0, colors = replicate 18 0,
      beat = 1/2, simplex = (\<lambda>a1 a2 a3 a4. 0),
      palette = [\<lparr>r = 1, g = 0, b = 0\<rparr>, \<lparr>r = 0, g = 1, b = 0\<rparr>, \<lparr>r = 0, g = 0, b = 1\<rparr>],
      isAnimating = True,
      geometry_position = None, geometry_color = None\<rparr>"

definition demo_allocated :: HeartAnimation where
  "demo_allocated =
     demo_animation\<lparr>positions := replicate PARTICLE_COUNT_6 0, colors := replicate PARTICLE_COUNT_6 0\<rparr>"

definition demo_page :: Page where
  "demo_page =
     \<lparr>errorDisplay = Some True, errorMessage = Some [],
      errorRetry = Some \<lparr>onclick = None, display = ''none''\<rparr>,
      loading = Some [''Loading''], loaderRequests = 1\<rparr>"

section \<open>Lists and indices\<close>

lemma take_update3:
  assumes "i + 3 \<le> length ps"
  shows "take (i + 3) (ps[i := a1, i + 1 := a2, i + 2 := a3]) = take i ps @ [a1, a2, a3]"
  using assms
  by (intro nth_equalityI) (auto simp: nth_append nth_list_update less_Suc_eq numeral_3_eq_3)

lemma upt_3: "i + 3 \<le> n \<Longrightarrow> [i..<n] = i # (i + 1) # (i + 2) # [i + 3..<n]"
  by (simp add: upt_conv_Cons numeral_3_eq_3)

lemma dvd3_step: "3 dvd (i::nat) \<Longrightarrow> 3 dvd n \<Longrightarrow> i < n \<Longrightarrow> i + 3 \<le> n"
  by presburger

section \<open>Sparks\<close>

text \<open>
  An update writes the two layer positions and nothing else, and it always writes both.
\<close>

lemma update_p1_fields:
  "pos (SparkPoint_update_p1 bt s) = pos s"
  "color (SparkPoint_update_p1 bt s) = color s"
  "rand (SparkPoint_update_p1 bt s) = rand s"
  "SparkPoint.simplex (SparkPoint_update_p1 bt s) = SparkPoint.simplex s"
  by (simp_all add: SparkPoint_update_p1_def Let_def)

lemma update_p2_fields:
  "pos (SparkPoint_update_p2 bt s) = pos s"
  "color (SparkPoint_update_p2 bt s) = color s"
  "rand (SparkPoint_update_p2 bt s) = rand s"
  "SparkPoint.simplex (SparkPoint_update_p2 bt s) = SparkPoint.simplex s"
  by (simp_all add: SparkPoint_update_p2_def Let_def)

lemma fold_update_p1_fields:
  "pos (fold SparkPoint_update_p1 bs s) = pos s \<and>
   color (fold SparkPoint_update_p1 bs s) = color s \<and>
   rand (fold SparkPoint_update_p1 bs s) = rand s \<and>
   SparkPoint.simplex (fold SparkPoint_update_p1 bs s) = SparkPoint.simplex s"
  by (induction bs arbitrary: s) (simp_all add: update_p1_fields)

lemma fold_update_p2_fields:
  "pos (fold SparkPoint_update_p2 bs s) = pos s \<and>
   color (fold SparkPoint_update_p2 bs s) = color s \<and>
   rand (fold SparkPoint_update_p2 bs s) = rand s \<and>
   SparkPoint.simplex (fold SparkPoint_update_p2 bs s) = SparkPoint.simplex s"
  by (induction bs arbitrary: s) (simp_all add: update_p2_fields)

lemma update_p1_depends:
  "pos s1 = pos s2 \<Longrightarrow> SparkPoint.simplex s1 = SparkPoint.simplex s2 \<Longrightarrow>
   one (SparkPoint_update_p1 bt s1) = one (SparkPoint_update_p1 bt s2) \<and>
   two (SparkPoint_update_p1 bt s1) = two (SparkPoint_update_p1 bt s2)"
  by (simp add: SparkPoint_update_p1_def Let_def)

lemma update_p2_depends:
  "pos s1 = pos s2 \<Longrightarrow> SparkPoint.simplex s1 = SparkPoint.simplex s2 \<Longrightarrow>
   one (SparkPoint_update_p2 bt s1) = one (SparkPoint_update_p2 bt s2) \<and>
   two (SparkPoint_update_p2 bt s1) = two (SparkPoint_update_p2 bt s2)"
  by (simp add: SparkPoint_update_p2_def Let_def)

lemma update_p1_layers:
  "\<exists>v1 v2. one (SparkPoint_update_p1 bt s) = Some v1 \<and> two (SparkPoint_update_p1 bt s) = Some v2"
  by (simp add: SparkPoint_update_p1_def Let_def)

lemma update_p2_layers:
  "\<exists>v1 v2. one (SparkPoint_update_p2 bt s) = Some v1 \<and> two (SparkPoint_update_p2 bt s) = Some v2"
  by (simp add: SparkPoint_update_p2_def Let_def)

text \<open>
  The constructor gives a spark a colour when the palette is not empty and the random
  number is in \<open>[0, 1)\<close>, as \<^verbatim>\<open>Math.random()\<close> promises; \<^verbatim>\<open>initParticles\<close> makes
  \<open>PARTICLE_COUNT\<close> sparks, for which the buffers of \<^verbatim>\<open>part_001\<close> have room;
  \<^verbatim>\<open>setupSampler\<close> makes \<^verbatim>\<open>originHeart\<close> a copy of the position array.
\<close>

lemma SparkPoint_new_color:
  assumes "0 \<le> u1" and "u1 < 1" and "pal \<noteq> []"
  shows "color (SparkPoint_new pal sx sampled u1 u2) \<noteq> None"
proof -
  let ?n = "real (length pal)"
  have n: "0 < ?n" using assms(3) by simp
  have lo: "0 \<le> \<lfloor>u1 * ?n\<rfloor>" using assms(1) by simp
  have "u1 * ?n < ?n" using assms(2) n by simp
  then have "\<lfloor>u1 * ?n\<rfloor> < int (length pal)" by (simp add: floor_less_iff)
  then have hi: "nat \<lfloor>u1 * ?n\<rfloor> < length pal" using lo by linarith
  show ?thesis using lo hi by (simp add: SparkPoint_new_def Let_def)
qed

lemma initParticles_spikes:
  "length (spikes (initParticles draws this)) = PARTICLE_COUNT"
  by (simp add: initParticles_def)

lemma initParticles_colors:
  assumes "palette this \<noteq> []"
    and "\<forall>i. 0 \<le> fst (snd (draws i)) \<and> fst (snd (draws i)) < 1"
  shows "\<forall>s \<in> set (spikes (initParticles draws this)). color s \<noteq> None"
proof
  fix s
  assume "s \<in> set (spikes (initParticles draws this))"
  then obtain i where
    s: "s = (case draws i of (sampled, u1, u2) \<Rightarrow>
               SparkPoint_new (palette this) (simplex this) sampled u1 u2)"
    by (auto simp: initParticles_def)
  obtain sampled u1 u2 where d: "draws i = (sampled, u1, u2)" by (cases "draws i") auto
  from assms(2) have "0 \<le> fst (snd (draws i))" "fst (snd (draws i)) < 1" by simp_all
  then have "0 \<le> u1" "u1 < 1" by (simp_all add: d)
  from SparkPoint_new_color [OF this assms(1)] show "color s \<noteq> None" by (simp add: s d)
qed

lemma HeartAnimation_new_p1_buffers:
  "length (positions (HeartAnimation_new_p1 sx pal)) = PARTICLE_COUNT_6"
  "length (colors (HeartAnimation_new_p1 sx pal)) = PARTICLE_COUNT_6"
  "6 * length (spikes (initParticles draws (HeartAnimation_new_p1 sx pal)))
     \<le> length (positions (initParticles draws (HeartAnimation_new_p1 sx pal)))"
  "6 * length (spikes (initParticles draws (HeartAnimation_new_p1 sx pal)))
     \<le> length (colors (initParticles draws (HeartAnimation_new_p1 sx pal)))"
  by (simp_all add: HeartAnimation_new_p1_def initParticles_def PARTICLE_COUNT_6_def)

lemma setupSampler_origin:
  assumes "heart this = Some vs"
  shows "setupSampler this = Inr (this\<lparr>originHeart := Some vs\<rparr>)"
  using assms by (simp add: setupSampler_def)

section \<open>The depth windows\<close>

text \<open>The tests of both variants are the windows of the specification.\<close>

lemma layer1_p1_window: "layer1_visible_p1 rnd v = within_window (MAX_Z * RATE_Z + 1 * rnd) (z v)"
  by (auto simp: layer1_visible_p1_def within_window_def MAX_Z_RATE_Z_def)

lemma layer2_p1_window: "layer2_visible_p1 rnd v = within_window (MAX_Z * RATE_Z + 2 * rnd) (z v)"
  by (auto simp: layer2_visible_p1_def within_window_def MAX_Z_RATE_Z_def)

lemma layer1_p2_window: "layer1_visible_p2 rnd v = within_window (MAX_Z * RATE_Z + 1 * rnd) (z v)"
  by (auto simp: layer1_visible_p2_def within_window_def)

lemma layer2_p2_window: "layer2_visible_p2 rnd v = within_window (MAX_Z * RATE_Z + 2 * rnd) (z v)"
  by (auto simp: layer2_visible_p2_def within_window_def)

lemma near_visible_far_visible:
  assumes "0 \<le> rnd"
  shows "(layer1_visible_p1 rnd v \<longrightarrow> layer2_visible_p1 rnd v) \<and>
         (layer1_visible_p2 rnd v \<longrightarrow> layer2_visible_p2 rnd v)"
  using assms
  by (auto simp: layer1_visible_p1_def layer2_visible_p1_def layer1_visible_p2_def layer2_visible_p2_def)

lemma spark_block_cases:
  assumes "0 \<le> rand s" and "one s = Some near" and "two s = Some far" and "color s = Some col"
  shows "(spec_spark_layers s = [] \<or> spec_spark_layers s = [(far, col)] \<or>
          spec_spark_layers s = [(near, col), (far, col)]) \<and>
         (layer1_visible_p1 (rand s) near \<longrightarrow> spec_spark_layers s = [(near, col), (far, col)]) \<and>
         (layer1_visible_p2 (rand s) near \<longrightarrow> spec_spark_layers s = [(near, col), (far, col)])"
  using near_visible_far_visible [OF assms(1), of near] assms(2-)
  by (auto simp: spec_spark_layers_def spec_layers_def
      layer1_p1_window layer2_p1_window layer1_p2_window layer2_p2_window)

section \<open>The render buffers\<close>

text \<open>
  With room in the buffers and a colour on every spark, the loop of \<^verbatim>\<open>part_001\<close>
  extends the written prefix of either buffer by the entries of the sparks, in order; the
  loop of \<^verbatim>\<open>part_002\<close> appends them.
\<close>

lemma writeLayer_p1_Some:
  assumes "k + 3 \<le> length ps" and "l + 3 \<le> length cs"
  obtains ps' cs' where
    "writeLayer_p1 v (Some col) (ps, cs, k, l) = Inr (ps', cs', k + 3, l + 3)"
    "length ps' = length ps" "length cs' = length cs"
    "take (k + 3) ps' = take k ps @ [x v, y v, z v]"
    "take (l + 3) cs' = take l cs @ [r col, g col, b col]"
proof
  show "writeLayer_p1 v (Some col) (ps, cs, k, l) =
          Inr (ps[k := x v, k + 1 := y v, k + 2 := z v],
               cs[l := r col, l + 1 := g col, l + 2 := b col], k + 3, l + 3)"
    by (simp add: writeLayer_p1_def)
  show "take (k + 3) (ps[k := x v, k + 1 := y v, k + 2 := z v]) = take k ps @ [x v, y v, z v]"
    using assms(1) by (rule take_update3)
  show "take (l + 3) (cs[l := r col, l + 1 := g col, l + 2 := b col]) = take l cs @ [r col, g col, b col]"
    using assms(2) by (rule take_update3)
qed simp_all

lemma particleStep_p1_writes:
  assumes col: "color spike = Some col"
    and room: "i + 6 \<le> length ps" "j + 6 \<le> length cs"
  shows "\<exists>ps' cs'.
           particleStep_p1 bt spike (ps, cs, i, j) =
             Inr (SparkPoint_update_p1 bt spike, ps', cs',
                  i + 3 * length (spec_spark_layers (SparkPoint_update_p1 bt spike)),
                  j + 3 * length (spec_spark_layers (SparkPoint_update_p1 bt spike))) \<and>
           length ps' = length ps \<and> length cs' = length cs \<and>
           take (i + 3 * length (spec_spark_layers (SparkPoint_update_p1 bt spike))) ps' =
             take i ps @ flat_positions (spec_spark_layers (SparkPoint_update_p1 bt spike)) \<and>
           take (j + 3 * length (spec_spark_layers (SparkPoint_update_p1 bt spike))) cs' =
             take j cs @ flat_colors (spec_spark_layers (SparkPoint_update_p1 bt spike))"
proof -
  let ?s = "SparkPoint_update_p1 bt spike"
  obtain v1 v2 where v: "one ?s = Some v1" "two ?s = Some v2"
    using update_p1_layers by blast
  have c: "color ?s = Some col" and rd: "rand ?s = rand spike"
    using col by (simp_all add: update_p1_fields)
  have sp: "spec_spark_layers ?s =
      (if layer1_visible_p1 (rand spike) v1 then [(v1, col)] else []) @
      (if layer2_visible_p1 (rand spike) v1 then [(v2, col)] else [])"
    by (simp add: spec_spark_layers_def spec_layers_def v c rd layer1_p1_window layer2_p1_window)
  show ?thesis
  proof (cases "layer1_visible_p1 (rand spike) v1")
    case L1: True
    from room obtain ps1 cs1 where w1:
      "writeLayer_p1 v1 (Some col) (ps, cs, i, j) = Inr (ps1, cs1, i + 3, j + 3)"
      "length ps1 = length ps" "length cs1 = length cs"
      "take (i + 3) ps1 = take i ps @ [x v1, y v1, z v1]"
      "take (j + 3) cs1 = take j cs @ [r col, g col, b col]"
      by (auto intro: writeLayer_p1_Some [of i ps j cs v1 col])
    show ?thesis
    proof (cases "layer2_visible_p1 (rand spike) v1")
      case L2: True
      from room w1(2,3) obtain ps2 cs2 where w2:
        "writeLayer_p1 v2 (Some col) (ps1, cs1, i + 3, j + 3) = Inr (ps2, cs2, i + 3 + 3, j + 3 + 3)"
        "length ps2 = length ps1" "length cs2 = length cs1"
        "take (i + 3 + 3) ps2 = take (i + 3) ps1 @ [x v2, y v2, z v2]"
        "take (j + 3 + 3) cs2 = take (j + 3) cs1 @ [r col, g col, b col]"
        by (auto intro: writeLayer_p1_Some [of "i + 3" ps1 "j + 3" cs1 v2 col])
      have e: "i + 3 + 3 = i + 6" "j + 3 + 3 = j + 6" by simp_all
      have "particleStep_p1 bt spike (ps, cs, i, j) = Inr (?s, ps2, cs2, i + 3 + 3, j + 3 + 3)"
        by (simp add: particleStep_p1_def Let_def v c rd L1 L2 w1(1) w2(1))
      with w1 w2 show ?thesis
        unfolding e by (simp add: sp L1 L2 flat_positions_def flat_colors_def)
    next
      case L2: False
      have "particleStep_p1 bt spike (ps, cs, i, j) = Inr (?s, ps1, cs1, i + 3, j + 3)"
        by (simp add: particleStep_p1_def Let_def v c rd L1 L2 w1(1))
      with w1 show ?thesis
        by (simp add: sp L1 L2 flat_positions_def flat_colors_def)
    qed
  next
    case L1: False
    show ?thesis
    proof (cases "layer2_visible_p1 (rand spike) v1")
      case L2: True
      from room obtain ps2 cs2 where w2:
        "writeLayer_p1 v2 (Some col) (ps, cs, i, j) = Inr (ps2, cs2, i + 3, j + 3)"
        "length ps2 = length ps" "length cs2 = length cs"
        "take (i + 3) ps2 = take i ps @ [x v2, y v2, z v2]"
        "take (j + 3) cs2 = take j cs @ [r col, g col, b col]"
        by (auto intro: writeLayer_p1_Some [of i ps j cs v2 col])
      have "particleStep_p1 bt spike (ps, cs, i, j) = Inr (?s, ps2, cs2, i + 3, j + 3)"
        by (simp add: particleStep_p1_def Let_def v c rd L1 L2 w2(1))
      with w2 show ?thesis
        by (simp add: sp L1 L2 flat_positions_def flat_colors_def)
    next
      case L2: False
      have "particleStep_p1 bt spike (ps, cs, i, j) = Inr (?s, ps, cs, i, j)"
        by (simp add: particleStep_p1_def Let_def v c rd L1 L2)
      then show ?thesis
        by (simp add: sp L1 L2 flat_positions_def flat_colors_def)
    qed
  qed
qed

lemma particleLoop_p1_writes:
  assumes "\<forall>s \<in> set ss. color s \<noteq> None"
    and "i + 6 * length ss \<le> length ps" and "j + 6 * length ss \<le> length cs"
  shows "\<exists>ps' cs' n.
           particleLoop_p1 bt ss (ps, cs, i, j) =
             Inr (map (SparkPoint_update_p1 bt) ss, ps', cs', i + n, j + n) \<and>
           length ps' = length ps \<and> length cs' = length cs \<and>
           take (i + n) ps' =
             take i ps @ flat_positions (concat (map spec_spark_layers (map (SparkPoint_update_p1 bt) ss))) \<and>
           take (j + n) cs' =
             take j cs @ flat_colors (concat (map spec_spark_layers (map (SparkPoint_update_p1 bt) ss)))"
  using assms
proof (induction ss arbitrary: ps cs i j)
  case Nil
  show ?case by (simp add: flat_positions_def flat_colors_def)
next
  case (Cons s ss)
  let ?s = "SparkPoint_update_p1 bt s"
  let ?k = "3 * length (spec_spark_layers ?s)"
  from Cons.prems obtain col where col: "color s = Some col" by auto
  have k6: "?k \<le> 6"
    by (simp add: spec_spark_layers_def spec_layers_def split: option.splits)
  from Cons.prems have room: "i + 6 \<le> length ps" "j + 6 \<le> length cs" by simp_all
  from particleStep_p1_writes [OF col room, of bt] obtain ps1 cs1 where st:
    "particleStep_p1 bt s (ps, cs, i, j) = Inr (?s, ps1, cs1, i + ?k, j + ?k)"
    "length ps1 = length ps" "length cs1 = length cs"
    "take (i + ?k) ps1 = take i ps @ flat_positions (spec_spark_layers ?s)"
    "take (j + ?k) cs1 = take j cs @ flat_colors (spec_spark_layers ?s)"
    by blast
  have "\<forall>s \<in> set ss. color s \<noteq> None" using Cons.prems by simp
  moreover have "i + ?k + 6 * length ss \<le> length ps1" "j + ?k + 6 * length ss \<le> length cs1"
    using Cons.prems k6 st(2,3) by simp_all
  ultimately obtain ps2 cs2 n where lp:
    "particleLoop_p1 bt ss (ps1, cs1, i + ?k, j + ?k) =
       Inr (map (SparkPoint_update_p1 bt) ss, ps2, cs2, i + ?k + n, j + ?k + n)"
    "length ps2 = length ps1" "length cs2 = length cs1"
    "take (i + ?k + n) ps2 =
       take (i + ?k) ps1 @ flat_positions (concat (map spec_spark_layers (map (SparkPoint_update_p1 bt) ss)))"
    "take (j + ?k + n) cs2 =
       take (j + ?k) cs1 @ flat_colors (concat (map spec_spark_layers (map (SparkPoint_update_p1 bt) ss)))"
    using Cons.IH [of "i + ?k" ps1 "j + ?k" cs1] by blast
  have "particleLoop_p1 bt (s # ss) (ps, cs, i, j) =
          Inr (map (SparkPoint_update_p1 bt) (s # ss), ps2, cs2, i + (?k + n), j + (?k + n))"
    using st(1) lp(1) by (simp add: add.assoc)
  moreover have "take (i + (?k + n)) ps2 =
      take i ps @ flat_positions (concat (map spec_spark_layers (map (SparkPoint_update_p1 bt) (s # ss))))"
    using lp(4) st(4) by (simp add: add.assoc flat_positions_def)
  moreover have "take (j + (?k + n)) cs2 =
      take j cs @ flat_colors (concat (map spec_spark_layers (map (SparkPoint_update_p1 bt) (s # ss))))"
    using lp(5) st(5) by (simp add: add.assoc flat_colors_def)
  ultimately show ?case using lp(2,3) st(2,3) by metis
qed

lemma particleStep_p2_pushes:
  assumes col: "color spike = Some col"
  shows "particleStep_p2 bt spike (ps, cs) =
           Inr (SparkPoint_update_p2 bt spike,
                ps @ flat_positions (spec_spark_layers (SparkPoint_update_p2 bt spike)),
                cs @ flat_colors (spec_spark_layers (SparkPoint_update_p2 bt spike)))"
proof -
  let ?s = "SparkPoint_update_p2 bt spike"
  obtain v1 v2 where v: "one ?s = Some v1" "two ?s = Some v2"
    using update_p2_layers by blast
  have c: "color ?s = Some col" and rd: "rand ?s = rand spike"
    using col by (simp_all add: update_p2_fields)
  have sp: "spec_spark_layers ?s =
      (if layer1_visible_p2 (rand spike) v1 then [(v1, col)] else []) @
      (if layer2_visible_p2 (rand spike) v1 then [(v2, col)] else [])"
    by (simp add: spec_spark_layers_def spec_layers_def v c rd layer1_p2_window layer2_p2_window)
  show ?thesis
    by (cases "layer1_visible_p2 (rand spike) v1"; cases "layer2_visible_p2 (rand spike) v1")
       (simp_all add: particleStep_p2_def pushLayer_p2_def Let_def v c rd sp
          flat_positions_def flat_colors_def)
qed

lemma particleLoop_p2_pushes:
  assumes "\<forall>s \<in> set ss. color s \<noteq> None"
  shows "particleLoop_p2 bt ss (ps, cs) =
           Inr (map (SparkPoint_update_p2 bt) ss,
                ps @ flat_positions (concat (map spec_spark_layers (map (SparkPoint_update_p2 bt) ss))),
                cs @ flat_colors (concat (map spec_spark_layers (map (SparkPoint_update_p2 bt) ss))))"
  using assms
proof (induction ss arbitrary: ps cs)
  case Nil
  show ?case by (simp add: flat_positions_def flat_colors_def)
next
  case (Cons s ss)
  from Cons.prems obtain col where col: "color s = Some col" by auto
  have rest: "\<forall>s \<in> set ss. color s \<noteq> None" using Cons.prems by simp
  show ?case
    by (simp add: particleStep_p2_pushes [OF col] Cons.IH [OF rest] flat_positions_def flat_colors_def)
qed

lemma length_flat_positions: "length (flat_positions es) = 3 * length es"
  by (induction es) (auto simp: flat_positions_def)

text \<open>
  Whatever the buffers and the colours, a frame that completes has updated every spark,
  kept the length of the preallocated buffers and advanced both write indices by the same
  multiple of 3, at most 6 per spark; and a frame completes when every spark has a colour.
\<close>

lemma particleStep_p1_Inr:
  assumes "particleStep_p1 bt s (ps, cs, i, j) = Inr (s', ps', cs', i', j')"
  shows "s' = SparkPoint_update_p1 bt s \<and> length ps' = length ps \<and> length cs' = length cs \<and>
         (\<exists>k. k \<le> 2 \<and> i' = i + 3 * k \<and> j' = j + 3 * k)"
proof -
  have k0: "\<exists>k::nat. k \<le> 2 \<and> i = i + 3 * k \<and> j = j + 3 * k" by (rule exI [of _ 0]) simp
  have k1: "\<exists>k::nat. k \<le> 2 \<and> i + 3 = i + 3 * k \<and> j + 3 = j + 3 * k" by (rule exI [of _ 1]) simp
  have k2: "\<exists>k::nat. k \<le> 2 \<and> i + 3 + 3 = i + 3 * k \<and> j + 3 + 3 = j + 3 * k" by (rule exI [of _ 2]) simp
  show ?thesis
    using assms k0 k1 k2
    by (auto simp: particleStep_p1_def writeLayer_p1_def Let_def
        split: option.splits if_splits sum.splits)
qed

lemma particleLoop_p1_Inr:
  assumes "particleLoop_p1 bt ss (ps, cs, i, j) = Inr (ss', ps', cs', i', j')"
  shows "ss' = map (SparkPoint_update_p1 bt) ss \<and> length ps' = length ps \<and> length cs' = length cs \<and>
         (\<exists>k. k \<le> 2 * length ss \<and> i' = i + 3 * k \<and> j' = j + 3 * k)"
  using assms
proof (induction ss arbitrary: ps cs i j ss')
  case Nil
  then show ?case by simp
next
  case (Cons s ss)
  from Cons.prems obtain s1 ps1 cs1 i1 j1 rest where
    st: "particleStep_p1 bt s (ps, cs, i, j) = Inr (s1, ps1, cs1, i1, j1)"
    and lp: "particleLoop_p1 bt ss (ps1, cs1, i1, j1) = Inr (rest, ps', cs', i', j')"
    and ss': "ss' = s1 # rest"
    by (auto split: sum.splits)
  from particleStep_p1_Inr [OF st] obtain k1 where
    a: "s1 = SparkPoint_update_p1 bt s" "length ps1 = length ps" "length cs1 = length cs"
      "k1 \<le> 2" "i1 = i + 3 * k1" "j1 = j + 3 * k1"
    by blast
  from Cons.IH [OF lp] obtain k2 where
    b: "rest = map (SparkPoint_update_p1 bt) ss" "length ps' = length ps1" "length cs' = length cs1"
      "k2 \<le> 2 * length ss" "i' = i1 + 3 * k2" "j' = j1 + 3 * k2"
    by blast
  have "k1 + k2 \<le> 2 * length (s # ss) \<and> i' = i + 3 * (k1 + k2) \<and> j' = j + 3 * (k1 + k2)"
    using a b by simp
  then have ex: "\<exists>k. k \<le> 2 * length (s # ss) \<and> i' = i + 3 * k \<and> j' = j + 3 * k" ..
  have "ss' = map (SparkPoint_update_p1 bt) (s # ss)" using a b ss' by simp
  moreover have "length ps' = length ps" "length cs' = length cs" using a b by simp_all
  ultimately show ?case using ex by blast
qed

lemma particleLoop_p1_total:
  assumes "\<forall>s \<in> set ss. color s \<noteq> None"
  shows "\<exists>res. particleLoop_p1 bt ss bufs = Inr res"
  using assms
proof (induction ss arbitrary: bufs)
  case Nil
  show ?case by (rule exI) (rule particleLoop_p1.simps(1))
next
  case (Cons s ss)
  from Cons.prems obtain col where col: "color s = Some col" by auto
  obtain v1 v2 where v: "one (SparkPoint_update_p1 bt s) = Some v1"
      "two (SparkPoint_update_p1 bt s) = Some v2"
    using update_p1_layers by blast
  obtain ps cs i j where bufs: "bufs = (ps, cs, i, j)" by (cases bufs) auto
  have "\<exists>bufs'. particleStep_p1 bt s bufs = Inr (SparkPoint_update_p1 bt s, bufs')"
    by (simp add: particleStep_p1_def writeLayer_p1_def Let_def v col update_p1_fields bufs)
  then obtain bufs' where st: "particleStep_p1 bt s bufs = Inr (SparkPoint_update_p1 bt s, bufs')"
    by blast
  from Cons.prems have "\<forall>s \<in> set ss. color s \<noteq> None" by simp
  from Cons.IH [OF this, of bufs'] obtain res where "particleLoop_p1 bt ss bufs' = Inr res" by blast
  then show ?case by (cases res) (simp add: st)
qed

lemma updateParticles_p1_Inr:
  assumes "updateParticles_p1 this = Inr this'"
  shows "\<exists>ps cs k. k \<le> 2 * length (spikes this) \<and>
           length ps = length (positions this) \<and> length cs = length (colors this) \<and>
           this' = this\<lparr>spikes := map (SparkPoint_update_p1 (beat this)) (spikes this),
                        positions := ps, colors := cs,
                        geometry_position := Some (take (3 * k) ps),
                        geometry_color := Some (take (3 * k) cs)\<rparr>"
proof -
  from assms obtain ss' ps cs i' j' where
    lp: "particleLoop_p1 (beat this) (spikes this) (positions this, colors this, 0, 0) =
           Inr (ss', ps, cs, i', j')"
    and t: "this' = this\<lparr>spikes := ss', positions := ps, colors := cs,
                        geometry_position := Some (take i' ps),
                        geometry_color := Some (take j' cs)\<rparr>"
    by (auto simp: updateParticles_p1_def split: sum.splits)
  from particleLoop_p1_Inr [OF lp] t show ?thesis by auto
qed

lemma updateParticles_p1_total:
  assumes "\<forall>s \<in> set (spikes this). color s \<noteq> None"
  shows "\<exists>this'. updateParticles_p1 this = Inr this'"
proof -
  from particleLoop_p1_total [OF assms] obtain res where
    "particleLoop_p1 (beat this) (spikes this) (positions this, colors this, 0, 0) = Inr res"
    by blast
  then show ?thesis by (cases res) (simp add: updateParticles_p1_def)
qed

lemma particleStep_p2_Inr:
  assumes "particleStep_p2 bt s (ps, cs) = Inr (s', ps', cs')"
  shows "s' = SparkPoint_update_p2 bt s \<and>
         (\<exists>k. k \<le> 2 \<and> length ps' = length ps + 3 * k \<and> length cs' = length cs + 3 * k)"
proof -
  have k0: "\<exists>k::nat. k \<le> 2 \<and> length ps = length ps + 3 * k \<and> length cs = length cs + 3 * k"
    by (rule exI [of _ 0]) simp
  have k1: "\<exists>k::nat. k \<le> 2 \<and> Suc (Suc (Suc (length ps))) = length ps + 3 * k \<and>
              Suc (Suc (Suc (length cs))) = length cs + 3 * k"
    by (rule exI [of _ 1]) simp
  have k2: "\<exists>k::nat. k \<le> 2 \<and> Suc (Suc (Suc (Suc (Suc (Suc (length ps)))))) = length ps + 3 * k \<and>
              Suc (Suc (Suc (Suc (Suc (Suc (length cs)))))) = length cs + 3 * k"
    by (rule exI [of _ 2]) simp
  show ?thesis
    using assms k0 k1 k2
    by (auto simp: particleStep_p2_def pushLayer_p2_def Let_def
        split: option.splits if_splits sum.splits)
qed

lemma particleLoop_p2_Inr:
  assumes "particleLoop_p2 bt ss (ps, cs) = Inr (ss', ps', cs')"
  shows "ss' = map (SparkPoint_update_p2 bt) ss \<and>
         (\<exists>k. k \<le> 2 * length ss \<and> length ps' = length ps + 3 * k \<and> length cs' = length cs + 3 * k)"
  using assms
proof (induction ss arbitrary: ps cs ss')
  case Nil
  then show ?case by simp
next
  case (Cons s ss)
  from Cons.prems obtain s1 ps1 cs1 rest where
    st: "particleStep_p2 bt s (ps, cs) = Inr (s1, ps1, cs1)"
    and lp: "particleLoop_p2 bt ss (ps1, cs1) = Inr (rest, ps', cs')"
    and ss': "ss' = s1 # rest"
    by (auto split: sum.splits)
  from particleStep_p2_Inr [OF st] obtain k1 where
    a: "s1 = SparkPoint_update_p2 bt s" "k1 \<le> 2"
      "length ps1 = length ps + 3 * k1" "length cs1 = length cs + 3 * k1"
    by blast
  from Cons.IH [OF lp] obtain k2 where
    b: "rest = map (SparkPoint_update_p2 bt) ss" "k2 \<le> 2 * length ss"
      "length ps' = length ps1 + 3 * k2" "length cs' = length cs1 + 3 * k2"
    by blast
  have "k1 + k2 \<le> 2 * length (s # ss) \<and> length ps' = length ps + 3 * (k1 + k2) \<and>
        length cs' = length cs + 3 * (k1 + k2)"
    using a b by simp
  then have ex: "\<exists>k. k \<le> 2 * length (s # ss) \<and> length ps' = length ps + 3 * k \<and>
        length cs' = length cs + 3 * k" ..
  have "ss' = map (SparkPoint_update_p2 bt) (s # ss)" using a b ss' by simp
  then show ?case using ex by blast
qed

lemma updateParticles_p2_Inr:
  assumes "updateParticles_p2 this = Inr this'"
  shows "\<exists>ps cs k. k \<le> 2 * length (spikes this) \<and>
           length ps = 3 * k \<and> length cs = 3 * k \<and>
           this' = this\<lparr>spikes := map (SparkPoint_update_p2 (beat this)) (spikes this),
                        positions := ps, colors := cs,
                        geometry_position := Some ps,
                        geometry_color := Some cs\<rparr>"
proof -
  from assms obtain ss' ps cs where
    lp: "particleLoop_p2 (beat this) (spikes this) ([], []) = Inr (ss', ps, cs)"
    and t: "this' = this\<lparr>spikes := ss', positions := ps, colors := cs,
                        geometry_position := Some ps, geometry_color := Some cs\<rparr>"
    by (auto simp: updateParticles_p2_def split: sum.splits)
  from particleLoop_p2_Inr [OF lp] t show ?thesis by auto
qed

lemma updateParticles_p2_total:
  assumes "\<forall>s \<in> set (spikes this). color s \<noteq> None"
  shows "\<exists>this'. updateParticles_p2 this = Inr this'"
  by (simp add: updateParticles_p2_def particleLoop_p2_pushes [OF assms])

section \<open>The heart mesh\<close>

text \<open>
  On a position array of whole vertices, with an origin array at least as long, the loop
  leaves the cells before \<open>i\<close> and writes every later cell from its origin cell.
\<close>

lemma displaced_vertex:
  assumes "3 dvd (i::nat)"
  shows "displaced sc oh i = oh ! i * sc (oh ! i) (oh ! (i + 1)) (oh ! (i + 2))"
    and "displaced sc oh (i + 1) = oh ! (i + 1) * sc (oh ! i) (oh ! (i + 1)) (oh ! (i + 2))"
    and "displaced sc oh (i + 2) = oh ! (i + 2) * sc (oh ! i) (oh ! (i + 1)) (oh ! (i + 2))"
proof -
  from assms obtain m where m: "i = 3 * m" by (rule dvdE)
  have d: "(3 * m) div 3 = m" "(3 * m + 1) div 3 = m" "(3 * m + 2) div 3 = m" by simp_all
  show "displaced sc oh i = oh ! i * sc (oh ! i) (oh ! (i + 1)) (oh ! (i + 2))"
    and "displaced sc oh (i + 1) = oh ! (i + 1) * sc (oh ! i) (oh ! (i + 1)) (oh ! (i + 2))"
    and "displaced sc oh (i + 2) = oh ! (i + 2) * sc (oh ! i) (oh ! (i + 1)) (oh ! (i + 2))"
    unfolding displaced_def m d by simp_all
qed

lemma heartLoop_p1_result:
  assumes "3 dvd i" and "3 dvd length vs" and "length vs \<le> length oh"
  shows "heartLoop_p1 sx tf bt (Some oh) i vs =
           Inr (take i vs @
                map (displaced (\<lambda>px py pz.
                       (sx (px * NOISE_SCALE) (py * NOISE_SCALE) (pz * NOISE_SCALE) tf + 1)
                         * NOISE_SCALE_AMPLITUDE * bt) oh) [i..<length vs])"
  using assms
proof (induction "length vs - i" arbitrary: i vs rule: less_induct)
  case less
  let ?sc = "\<lambda>px py pz. (sx (px * NOISE_SCALE) (py * NOISE_SCALE) (pz * NOISE_SCALE) tf + 1)
                         * NOISE_SCALE_AMPLITUDE * bt"
  show ?case
  proof (cases "i < length vs")
    case False
    then show ?thesis by simp
  next
    case True
    with less.prems have i3: "i + 3 \<le> length vs" by (auto intro: dvd3_step)
    with less.prems have rd: "i + 2 < length oh" by simp
    let ?vs1 = "vs[i := oh ! i * ?sc (oh ! i) (oh ! (i + 1)) (oh ! (i + 2)),
                   i + 1 := oh ! (i + 1) * ?sc (oh ! i) (oh ! (i + 1)) (oh ! (i + 2)),
                   i + 2 := oh ! (i + 2) * ?sc (oh ! i) (oh ! (i + 1)) (oh ! (i + 2))]"
    have len: "length ?vs1 = length vs" by simp
    have step: "heartLoop_p1 sx tf bt (Some oh) i vs = heartLoop_p1 sx tf bt (Some oh) (i + 3) ?vs1"
      using True rd by (subst heartLoop_p1.simps) (simp add: Let_def)
    have "length ?vs1 - (i + 3) < length vs - i" using True by simp
    moreover have "3 dvd (i + 3)" using less.prems(1) by simp
    moreover have "3 dvd length ?vs1" using less.prems(2) by simp
    moreover have "length ?vs1 \<le> length oh" using less.prems(3) by simp
    ultimately have IH: "heartLoop_p1 sx tf bt (Some oh) (i + 3) ?vs1 =
        Inr (take (i + 3) ?vs1 @ map (displaced ?sc oh) [i + 3..<length ?vs1])"
      by (rule less.hyps)
    have tk: "take (i + 3) ?vs1 = take i vs @
        [displaced ?sc oh i, displaced ?sc oh (i + 1), displaced ?sc oh (i + 2)]"
      using i3 by (simp only: take_update3 displaced_vertex [OF less.prems(1)])
    show ?thesis
      unfolding step IH tk len upt_3 [OF i3] by simp
  qed
qed

lemma heartLoop_p2_result:
  assumes "3 dvd i" and "3 dvd length vs" and "length vs \<le> length oh"
  shows "heartLoop_p2 sx time bt (Some oh) i vs =
           Inr (take i vs @
                map (displaced (\<lambda>px py pz.
                       (sx (px * NOISE_SCALE) (py * NOISE_SCALE) (pz * NOISE_SCALE) (time * 0.0005) + 1)
                         * NOISE_AMPLITUDE * bt) oh) [i..<length vs])"
  using assms
proof (induction "length vs - i" arbitrary: i vs rule: less_induct)
  case less
  let ?sc = "\<lambda>px py pz. (sx (px * NOISE_SCALE) (py * NOISE_SCALE) (pz * NOISE_SCALE) (time * 0.0005) + 1)
                         * NOISE_AMPLITUDE * bt"
  show ?case
  proof (cases "i < length vs")
    case False
    then show ?thesis by simp
  next
    case True
    with less.prems have i3: "i + 3 \<le> length vs" by (auto intro: dvd3_step)
    with less.prems have rd: "i + 2 < length oh" by simp
    let ?vs1 = "vs[i := oh ! i * ?sc (oh ! i) (oh ! (i + 1)) (oh ! (i + 2)),
                   i + 1 := oh ! (i + 1) * ?sc (oh ! i) (oh ! (i + 1)) (oh ! (i + 2)),
                   i + 2 := oh ! (i + 2) * ?sc (oh ! i) (oh ! (i + 1)) (oh ! (i + 2))]"
    have len: "length ?vs1 = length vs" by simp
    have step: "heartLoop_p2 sx time bt (Some oh) i vs = heartLoop_p2 sx time bt (Some oh) (i + 3) ?vs1"
      using True rd by (subst heartLoop_p2.simps) (simp add: Let_def multiplyScalar_def)
    have "length ?vs1 - (i + 3) < length vs - i" using True by simp
    moreover have "3 dvd (i + 3)" using less.prems(1) by simp
    moreover have "3 dvd length ?vs1" using less.prems(2) by simp
    moreover have "length ?vs1 \<le> length oh" using less.prems(3) by simp
    ultimately have IH: "heartLoop_p2 sx time bt (Some oh) (i + 3) ?vs1 =
        Inr (take (i + 3) ?vs1 @ map (displaced ?sc oh) [i + 3..<length ?vs1])"
      by (rule less.hyps)
    have tk: "take (i + 3) ?vs1 = take i vs @
        [displaced ?sc oh i, displaced ?sc oh (i + 1), displaced ?sc oh (i + 2)]"
      using i3 by (simp only: take_update3 displaced_vertex [OF less.prems(1)])
    show ?thesis
      unfolding step IH tk len upt_3 [OF i3] by simp
  qed
qed

lemma vertex_displaced:
  assumes "k < n div 3"
  shows "vertex (map (displaced sc oh) [0..<n]) k =
           multiplyScalar (sc (x (vertex oh k)) (y (vertex oh k)) (z (vertex oh k))) (vertex oh k)"
proof -
  from assms have b: "3 * k < n" "3 * k + 1 < n" "3 * k + 2 < n" by auto
  have n: "map (displaced sc oh) [0..<n] ! (3 * k) = displaced sc oh (3 * k)"
    "map (displaced sc oh) [0..<n] ! (3 * k + 1) = displaced sc oh (3 * k + 1)"
    "map (displaced sc oh) [0..<n] ! (3 * k + 2) = displaced sc oh (3 * k + 2)"
    using b by (simp_all del: upt_Suc)
  have "3 dvd 3 * k" by simp
  note d = displaced_vertex [OF this, of sc oh]
  show ?thesis
    unfolding vertex_def multiplyScalar_def n d by simp
qed

lemma updateHeartGeometry_p1_result:
  assumes "heart this = Some vs" and "originHeart this = Some oh"
    and "length vs \<le> length oh" and "3 dvd length vs"
  shows "updateHeartGeometry_p1 time this =
           Inr (this\<lparr>heart := Some (map (displaced (\<lambda>px py pz.
                  spec_scale (simplex this) px py pz time (beat this)) oh) [0..<length vs])\<rparr>)"
  using heartLoop_p1_result [of 0 vs oh "simplex this" "time * 0.0005" "beat this"] assms
  by (simp add: updateHeartGeometry_p1_def spec_scale_def NOISE_SCALE_AMPLITUDE_def)

lemma updateHeartGeometry_p2_result:
  assumes "heart this = Some vs" and "originHeart this = Some oh"
    and "length vs \<le> length oh" and "3 dvd length vs"
  shows "updateHeartGeometry_p2 time this =
           Inr (this\<lparr>heart := Some (map (displaced (\<lambda>px py pz.
                  scale_p2 (simplex this) px py pz time (beat this)) oh) [0..<length vs])\<rparr>)"
  using heartLoop_p2_result [of 0 vs oh "simplex this" time "beat this"] assms
  by (simp add: updateHeartGeometry_p2_def scale_p2_def)

lemma updateHeartGeometry_p1_Inr:
  assumes "updateHeartGeometry_p1 time this = Inr this'"
  shows "\<exists>vs'. this' = this\<lparr>heart := Some vs'\<rparr>"
  using assms by (auto simp: updateHeartGeometry_p1_def split: option.splits sum.splits)

lemma updateHeartGeometry_p2_Inr:
  assumes "updateHeartGeometry_p2 time this = Inr this'"
  shows "\<exists>vs'. this' = this\<lparr>heart := Some vs'\<rparr>"
  using assms by (auto simp: updateHeartGeometry_p2_def split: option.splits sum.splits)

lemma displaced_zero:
  "map (displaced (\<lambda>px py pz. 0) oh) [0..<n] = replicate n 0"
proof -
  have "displaced (\<lambda>px py pz. 0) oh = (\<lambda>j. 0)"
    by (rule ext) (simp add: displaced_def)
  then show ?thesis by (simp add: map_replicate_const)
qed

lemma rest_frame_p1:
  assumes "heart this = Some vs" and "originHeart this = Some oh"
    and "length vs \<le> length oh" and "3 dvd length vs"
  shows "\<exists>this'. updateHeartGeometry_p1 time (this\<lparr>beat := 0\<rparr>) = Inr this' \<and>
           heart this' = Some (replicate (length vs) 0)"
proof -
  have h: "heart (this\<lparr>beat := 0\<rparr>) = Some vs" "originHeart (this\<lparr>beat := 0\<rparr>) = Some oh"
    using assms by simp_all
  show ?thesis
    by (simp add: updateHeartGeometry_p1_result [OF h assms(3,4)] spec_scale_def displaced_zero)
qed

lemma rest_frame_p2:
  assumes "heart this = Some vs" and "originHeart this = Some oh"
    and "length vs \<le> length oh" and "3 dvd length vs"
  shows "\<exists>this'. updateHeartGeometry_p2 time (this\<lparr>beat := 0\<rparr>) = Inr this' \<and>
           heart this' = Some (replicate (length vs) 0)"
proof -
  have h: "heart (this\<lparr>beat := 0\<rparr>) = Some vs" "originHeart (this\<lparr>beat := 0\<rparr>) = Some oh"
    using assms by simp_all
  show ?thesis
    by (simp add: updateHeartGeometry_p2_result [OF h assms(3,4)] scale_p2_def displaced_zero)
qed

lemma heartFrames_p1_keeps:
  assumes "heart this = Some vs" and "originHeart this = Some oh"
    and "length vs \<le> length oh" and "3 dvd length vs"
  shows "\<exists>this' vs'. heartFrames_p1 frames this = Inr this' \<and> heart this' = Some vs' \<and>
           length vs' = length vs \<and> originHeart this' = Some oh"
  using assms
proof (induction frames arbitrary: this vs)
  case Nil
  then show ?case by simp
next
  case (Cons f frames)
  obtain time bt where f: "f = (time, bt)" by (cases f)
  let ?t = "this\<lparr>beat := bt\<rparr>"
  let ?vs1 = "map (displaced (\<lambda>px py pz.
                  spec_scale (simplex ?t) px py pz time (beat ?t)) oh) [0..<length vs]"
  have h: "heart ?t = Some vs" "originHeart ?t = Some oh" using Cons.prems by simp_all
  have u: "updateHeartGeometry_p1 time ?t = Inr (?t\<lparr>heart := Some ?vs1\<rparr>)"
    by (rule updateHeartGeometry_p1_result [OF h Cons.prems(3,4)])
  have "heart (?t\<lparr>heart := Some ?vs1\<rparr>) = Some ?vs1"
    "originHeart (?t\<lparr>heart := Some ?vs1\<rparr>) = Some oh"
    "length ?vs1 \<le> length oh" "3 dvd length ?vs1"
    using Cons.prems by simp_all
  from Cons.IH [OF this] obtain this' vs' where
    "heartFrames_p1 frames (?t\<lparr>heart := Some ?vs1\<rparr>) = Inr this'" "heart this' = Some vs'"
    "length vs' = length ?vs1" "originHeart this' = Some oh"
    by blast
  then show ?case by (simp add: f u)
qed

lemma heartFrames_p2_keeps:
  assumes "heart this = Some vs" and "originHeart this = Some oh"
    and "length vs \<le> length oh" and "3 dvd length vs"
  shows "\<exists>this' vs'. heartFrames_p2 frames this = Inr this' \<and> heart this' = Some vs' \<and>
           length vs' = length vs \<and> originHeart this' = Some oh"
  using assms
proof (induction frames arbitrary: this vs)
  case Nil
  then show ?case by simp
next
  case (Cons f frames)
  obtain time bt where f: "f = (time, bt)" by (cases f)
  let ?t = "this\<lparr>beat := bt\<rparr>"
  let ?vs1 = "map (displaced (\<lambda>px py pz.
                  scale_p2 (simplex ?t) px py pz time (beat ?t)) oh) [0..<length vs]"
  have h: "heart ?t = Some vs" "originHeart ?t = Some oh" using Cons.prems by simp_all
  have u: "updateHeartGeometry_p2 time ?t = Inr (?t\<lparr>heart := Some ?vs1\<rparr>)"
    by (rule updateHeartGeometry_p2_result [OF h Cons.prems(3,4)])
  have "heart (?t\<lparr>heart := Some ?vs1\<rparr>) = Some ?vs1"
    "originHeart (?t\<lparr>heart := Some ?vs1\<rparr>) = Some oh"
    "length ?vs1 \<le> length oh" "3 dvd length ?vs1"
    using Cons.prems by simp_all
  from Cons.IH [OF this] obtain this' vs' where
    "heartFrames_p2 frames (?t\<lparr>heart := Some ?vs1\<rparr>) = Inr this'" "heart this' = Some vs'"
    "length vs' = length ?vs1" "originHeart this' = Some oh"
    by blast
  then show ?case by (simp add: f u)
qed

lemma heartFrames_p1_append:
  "heartFrames_p1 (fs @ gs) this =
     (case heartFrames_p1 fs this of Inl e \<Rightarrow> Inl e | Inr this' \<Rightarrow> heartFrames_p1 gs this')"
proof (induction fs arbitrary: this)
  case Nil
  show ?case by simp
next
  case (Cons f fs)
  obtain time bt where f: "f = (time, bt)" by (cases f)
  show ?case by (simp add: f Cons.IH split: sum.splits)
qed

lemma heartFrames_p2_append:
  "heartFrames_p2 (fs @ gs) this =
     (case heartFrames_p2 fs this of Inl e \<Rightarrow> Inl e | Inr this' \<Rightarrow> heartFrames_p2 gs this')"
proof (induction fs arbitrary: this)
  case Nil
  show ?case by simp
next
  case (Cons f fs)
  obtain time bt where f: "f = (time, bt)" by (cases f)
  show ?case by (simp add: f Cons.IH split: sum.splits)
qed

section \<open>A whole frame\<close>

lemma render_p1_keeps:
  assumes "render_p1 hidden time this = Inr this'"
  shows "originHeart this' = originHeart this \<and>
         map pos (spikes this') = map pos (spikes this) \<and>
         map color (spikes this') = map color (spikes this) \<and>
         map rand (spikes this') = map rand (spikes this)"
proof (cases "\<not> isAnimating this \<or> heart this = None \<or> hidden")
  case True
  with assms have "this' = this" by (auto simp: render_p1_def split: if_splits)
  then show ?thesis by simp
next
  case False
  with assms obtain t1 where
    u: "updateParticles_p1 this = Inr t1" and h: "updateHeartGeometry_p1 time t1 = Inr this'"
    by (auto simp: render_p1_def split: sum.splits)
  from updateParticles_p1_Inr [OF u] obtain ps cs k where
    t1: "t1 = this\<lparr>spikes := map (SparkPoint_update_p1 (beat this)) (spikes this),
                   positions := ps, colors := cs,
                   geometry_position := Some (take (3 * k) ps),
                   geometry_color := Some (take (3 * k) cs)\<rparr>"
    by blast
  from updateHeartGeometry_p1_Inr [OF h] obtain vs' where t2: "this' = t1\<lparr>heart := Some vs'\<rparr>"
    by blast
  show ?thesis unfolding t2 t1 by (simp add: update_p1_fields)
qed

lemma render_p2_keeps:
  assumes "render_p2 time this = Inr this'"
  shows "originHeart this' = originHeart this \<and>
         map pos (spikes this') = map pos (spikes this) \<and>
         map color (spikes this') = map color (spikes this) \<and>
         map rand (spikes this') = map rand (spikes this)"
proof (cases "\<not> isAnimating this \<or> heart this = None")
  case True
  with assms have "this' = this" by (auto simp: render_p2_def split: if_splits)
  then show ?thesis by simp
next
  case False
  with assms obtain t1 where
    u: "updateParticles_p2 this = Inr t1" and h: "updateHeartGeometry_p2 time t1 = Inr this'"
    by (auto simp: render_p2_def split: sum.splits)
  from updateParticles_p2_Inr [OF u] obtain ps cs where
    t1: "t1 = this\<lparr>spikes := map (SparkPoint_update_p2 (beat this)) (spikes this),
                   positions := ps, colors := cs,
                   geometry_position := Some ps, geometry_color := Some cs\<rparr>"
    by blast
  from updateHeartGeometry_p2_Inr [OF h] obtain vs' where t2: "this' = t1\<lparr>heart := Some vs'\<rparr>"
    by blast
  show ?thesis unfolding t2 t1 by (simp add: update_p2_fields)
qed

lemma render_p1_total:
  assumes "\<forall>s \<in> set (spikes this). color s \<noteq> None"
    and "heart this = Some vs" and "originHeart this = Some oh"
    and "length vs \<le> length oh" and "3 dvd length vs"
  shows "\<exists>this'. render_p1 hidden time this = Inr this'"
proof -
  from updateParticles_p1_total [OF assms(1)] obtain t1 where u: "updateParticles_p1 this = Inr t1"
    by blast
  from updateParticles_p1_Inr [OF u] have "heart t1 = Some vs" "originHeart t1 = Some oh"
    using assms(2,3) by auto
  from updateHeartGeometry_p1_result [OF this assms(4,5), of time] u
  show ?thesis by (simp add: render_p1_def)
qed

lemma render_p2_total:
  assumes "\<forall>s \<in> set (spikes this). color s \<noteq> None"
    and "heart this = Some vs" and "originHeart this = Some oh"
    and "length vs \<le> length oh" and "3 dvd length vs"
  shows "\<exists>this'. render_p2 time this = Inr this'"
proof -
  from updateParticles_p2_total [OF assms(1)] obtain t1 where u: "updateParticles_p2 this = Inr t1"
    by blast
  from updateParticles_p2_Inr [OF u] have "heart t1 = Some vs" "originHeart t1 = Some oh"
    using assms(2,3) by auto
  from updateHeartGeometry_p2_result [OF this assms(4,5), of time] u
  show ?thesis by (simp add: render_p2_def)
qed

section \<open>The concrete inputs, evaluated\<close>

lemma demo_updated_p1:
  "map (SparkPoint_update_p1 (1/2)) demo_spikes =
     [\<lparr>color = Some \<lparr>r = 1, g = 0, b = 0\<rparr>, rand = 1/100, pos = \<lparr>x = 0, y = 0, z = 1/10\<rparr>,
       one = Some \<lparr>x = 0, y = 0, z = 943/8000\<rparr>, two = Some \<lparr>x = 0, y = 0, z = 3/25\<rparr>,
       SparkPoint.simplex = (\<lambda>a1 a2 a3 a4. 0)\<rparr>,
      \<lparr>color = Some \<lparr>r = 0, g = 1, b = 0\<rparr>, rand = 1/100, pos = \<lparr>x = 0, y = 0, z = 11/100\<rparr>,
       one = Some \<lparr>x = 0, y = 0, z = 10373/80000\<rparr>, two = Some \<lparr>x = 0, y = 0, z = 33/250\<rparr>,
       SparkPoint.simplex = (\<lambda>a1 a2 a3 a4. 0)\<rparr>,
      \<lparr>color = Some \<lparr>r = 0, g = 0, b = 1\<rparr>, rand = 1/100, pos = \<lparr>x = 0, y = 0, z = 1\<rparr>,
       one = Some \<lparr>x = 0, y = 0, z = 943/800\<rparr>, two = Some \<lparr>x = 0, y = 0, z = 6/5\<rparr>,
       SparkPoint.simplex = (\<lambda>a1 a2 a3 a4. 0)\<rparr>]"
  by (simp add: demo_spikes_def demo_spark_def SparkPoint_update_p1_def Let_def multiplyScalar_def clone_def
      NOISE_SCALE_AMPLITUDE_def NOISE_SCALE_def NOISE_AMPLITUDE_def NOISE_FREQUENCY_def)

lemma demo_updated_p2:
  "map (SparkPoint_update_p2 (1/2)) demo_spikes =
     [\<lparr>color = Some \<lparr>r = 1, g = 0, b = 0\<rparr>, rand = 1/100, pos = \<lparr>x = 0, y = 0, z = 1/10\<rparr>,
       one = Some \<lparr>x = 0, y = 0, z = 449/4000\<rparr>, two = Some \<lparr>x = 0, y = 0, z = 3/25\<rparr>,
       SparkPoint.simplex = (\<lambda>a1 a2 a3 a4. 0)\<rparr>,
      \<lparr>color = Some \<lparr>r = 0, g = 1, b = 0\<rparr>, rand = 1/100, pos = \<lparr>x = 0, y = 0, z = 11/100\<rparr>,
       one = Some \<lparr>x = 0, y = 0, z = 4939/40000\<rparr>, two = Some \<lparr>x = 0, y = 0, z = 33/250\<rparr>,
       SparkPoint.simplex = (\<lambda>a1 a2 a3 a4. 0)\<rparr>,
      \<lparr>color = Some \<lparr>r = 0, g = 0, b = 1\<rparr>, rand = 1/100, pos = \<lparr>x = 0, y = 0, z = 1\<rparr>,
       one = Some \<lparr>x = 0, y = 0, z = 449/400\<rparr>, two = Some \<lparr>x = 0, y = 0, z = 6/5\<rparr>,
       SparkPoint.simplex = (\<lambda>a1 a2 a3 a4. 0)\<rparr>]"
  by (simp add: demo_spikes_def demo_spark_def SparkPoint_update_p2_def Let_def multiplyScalar_def clone_def
      NOISE_AMPLITUDE_def NOISE_FREQUENCY_def)

lemma demo_spark_updated:
  "one (SparkPoint_update_p1 (1/2) demo_spark) = Some \<lparr>x = 0, y = 0, z = 943/8000\<rparr>"
  "two (SparkPoint_update_p1 (1/2) demo_spark) = Some \<lparr>x = 0, y = 0, z = 3/25\<rparr>"
  "one (SparkPoint_update_p2 (1/2) demo_spark) = Some \<lparr>x = 0, y = 0, z = 449/4000\<rparr>"
  "two (SparkPoint_update_p2 (1/2) demo_spark) = Some \<lparr>x = 0, y = 0, z = 3/25\<rparr>"
  by (simp_all add: demo_spark_def SparkPoint_update_p1_def SparkPoint_update_p2_def Let_def
      multiplyScalar_def clone_def NOISE_SCALE_AMPLITUDE_def NOISE_SCALE_def NOISE_AMPLITUDE_def
      NOISE_FREQUENCY_def)

lemma demo_heart:
  "heart demo_animation = Some [1, 0, 0, 0, 2, 0]"
  "originHeart demo_animation = Some [1, 0, 0, 0, 2, 0]"
  "beat demo_animation = 1/2"
  "simplex demo_animation = (\<lambda>a1 a2 a3 a4. 0)"
  by (simp_all add: demo_animation_def)

lemma demo_heart_dvd: "3 dvd length [1, 0, 0, 0, 2, 0 :: real]"
proof -
  have "length [1, 0, 0, 0, 2, 0 :: real] = 3 * 2" by simp
  then show ?thesis by (simp only: dvd_triv_left)
qed

lemma demo_vertices:
  "vertex [1, 0, 0, 0, 2, 0] 0 = \<lparr>x = 1, y = 0, z = 0\<rparr>"
  "vertex [1, 0, 0, 0, 2, 0] 1 = \<lparr>x = 0, y = 2, z = 0\<rparr>"
  "vertex [1, 0, 0, 0, 2, 0] (Suc 0) = \<lparr>x = 0, y = 2, z = 0\<rparr>"
  by (simp_all add: vertex_def)

section \<open>The claims\<close>

text \<open>
  Claim C1, as the specification states it: in both variants of \<^verbatim>\<open>updateHeartGeometry\<close>
  the scale factor of a vertex is
  \<open>(noise4D(x S, y S, z S, t k) + 1) \<times> (noise_scale \<times> noise_amplitude) \<times> beat\<close>.
  The variant of \<^verbatim>\<open>part_002\<close> does not compute it: on the mesh with first vertex
  \<open>(1, 0, 0)\<close>, at beat \<open>0.5\<close> and noise \<open>0\<close>, it moves the vertex to \<open>(0.075, 0, 0)\<close>,
  where the claimed factor gives \<open>(0.1125, 0, 0)\<close>.
\<close>

theorem C1_scale_p2_counterexample:
  "\<not> (\<exists>vs'. updateHeartGeometry_p2 0 demo_animation = Inr (demo_animation\<lparr>heart := Some vs'\<rparr>) \<and>
         vertex vs' 0 =
           multiplyScalar (spec_scale (simplex demo_animation) 1 0 0 0 (beat demo_animation))
             \<lparr>x = 1, y = 0, z = 0\<rparr>)"
proof
  assume "\<exists>vs'. updateHeartGeometry_p2 0 demo_animation = Inr (demo_animation\<lparr>heart := Some vs'\<rparr>) \<and>
         vertex vs' 0 =
           multiplyScalar (spec_scale (simplex demo_animation) 1 0 0 0 (beat demo_animation))
             \<lparr>x = 1, y = 0, z = 0\<rparr>"
  then obtain vs' where
    a: "updateHeartGeometry_p2 0 demo_animation = Inr (demo_animation\<lparr>heart := Some vs'\<rparr>)"
    and b: "vertex vs' 0 =
           multiplyScalar (spec_scale (simplex demo_animation) 1 0 0 0 (beat demo_animation))
             \<lparr>x = 1, y = 0, z = 0\<rparr>"
    by blast
  have le: "length [1, 0, 0, 0, 2, 0 :: real] \<le> length [1, 0, 0, 0, 2, 0 :: real]"
    by simp
  note d3 = demo_heart_dvd
  have "heart (demo_animation\<lparr>heart := Some vs'\<rparr>) =
        heart (demo_animation\<lparr>heart := Some (map (displaced (\<lambda>px py pz.
                  scale_p2 (simplex demo_animation) px py pz 0 (beat demo_animation)) [1, 0, 0, 0, 2, 0])
                  [0..<length [1, 0, 0, 0, 2, 0 :: real]])\<rparr>)"
    using a updateHeartGeometry_p2_result [OF demo_heart(1,2) le d3, of 0] by simp
  then have vs': "vs' = map (displaced (\<lambda>px py pz.
                  scale_p2 (simplex demo_animation) px py pz 0 (beat demo_animation)) [1, 0, 0, 0, 2, 0])
                  [0..<length [1, 0, 0, 0, 2, 0 :: real]]"
    by simp
  have "1 < length [1, 0, 0, 0, 2, 0 :: real] div 3" "0 < length [1, 0, 0, 0, 2, 0 :: real] div 3" by simp_all
  from vertex_displaced [OF this(2)]
  have "x (vertex vs' 0) = 3/40"
    unfolding vs'
    by (simp add: demo_vertices demo_heart multiplyScalar_def scale_p2_def
        NOISE_SCALE_def NOISE_AMPLITUDE_def)
  moreover have "x (multiplyScalar (spec_scale (simplex demo_animation) 1 0 0 0 (beat demo_animation))
             \<lparr>x = 1, y = 0, z = 0\<rparr>) = 9/80"
    by (simp add: demo_heart multiplyScalar_def spec_scale_def NOISE_SCALE_def NOISE_AMPLITUDE_def)
  ultimately show False using b by simp
qed

text \<open>
  Claim C1, amended: for every mesh origin vertex \<open>(x, y, z)\<close> and every frame, the new
  position of the vertex is its origin position multiplied component-wise by one scalar
  (a uniform scaling from the origin, not an offset). In the variant of \<^verbatim>\<open>part_001\<close>
  the scalar is \<open>(noise4D(x S, y S, z S, t k) + 1) \<times> (noise_scale \<times> noise_amplitude) \<times> beat\<close>;
  in the variant of \<^verbatim>\<open>part_002\<close> it is \<open>(noise4D(x S, y S, z S, t k) + 1) \<times>
  noise_amplitude \<times> beat\<close>. The mesh is loaded: the position array holds whole vertices
  and \<^verbatim>\<open>originHeart\<close> is the copy of it that \<^verbatim>\<open>setupSampler\<close> took.
\<close>

theorem C1_vertex_displacement:
  assumes "heart this = Some vs" and "originHeart this = Some oh"
    and "length oh = length vs" and "3 dvd length vs"
  shows "(\<exists>vs'. updateHeartGeometry_p1 time this = Inr (this\<lparr>heart := Some vs'\<rparr>) \<and>
            length vs' = length vs \<and>
            (\<forall>k. k < length vs div 3 \<longrightarrow>
               vertex vs' k =
                 multiplyScalar
                   (spec_scale (simplex this) (x (vertex oh k)) (y (vertex oh k)) (z (vertex oh k))
                      time (beat this))
                   (vertex oh k))) \<and>
         (\<exists>vs'. updateHeartGeometry_p2 time this = Inr (this\<lparr>heart := Some vs'\<rparr>) \<and>
            length vs' = length vs \<and>
            (\<forall>k. k < length vs div 3 \<longrightarrow>
               vertex vs' k =
                 multiplyScalar
                   (scale_p2 (simplex this) (x (vertex oh k)) (y (vertex oh k)) (z (vertex oh k))
                      time (beat this))
                   (vertex oh k)))"
proof -
  from assms have le: "length vs \<le> length oh" by simp
  show ?thesis
    using updateHeartGeometry_p1_result [OF assms(1,2) le assms(4), of time]
      updateHeartGeometry_p2_result [OF assms(1,2) le assms(4), of time]
    by (auto simp: vertex_displaced)
qed

text \<open>
  On the mesh of the two vertices \<open>(1, 0, 0)\<close> and \<open>(0, 2, 0)\<close>, at beat \<open>0.5\<close> and
  noise \<open>0\<close>: the factor is \<open>0.1125\<close> in \<^verbatim>\<open>part_001\<close> and \<open>0.075\<close> in \<^verbatim>\<open>part_002\<close>.
\<close>

theorem C1_vertex_displacement_witness:
  "(\<exists>vs'. updateHeartGeometry_p1 0 demo_animation = Inr (demo_animation\<lparr>heart := Some vs'\<rparr>) \<and>
      length vs' = 6 \<and>
      vertex vs' 0 = \<lparr>x = 9/80, y = 0, z = 0\<rparr> \<and> vertex vs' 1 = \<lparr>x = 0, y = 9/40, z = 0\<rparr>) \<and>
   (\<exists>vs'. updateHeartGeometry_p2 0 demo_animation = Inr (demo_animation\<lparr>heart := Some vs'\<rparr>) \<and>
      length vs' = 6 \<and>
      vertex vs' 0 = \<lparr>x = 3/40, y = 0, z = 0\<rparr> \<and> vertex vs' 1 = \<lparr>x = 0, y = 3/20, z = 0\<rparr>)"
proof -
  have len: "length [1, 0, 0, 0, 2, 0 :: real] = length [1, 0, 0, 0, 2, 0 :: real]"
    by simp
  note d3 = demo_heart_dvd
  from C1_vertex_displacement [OF demo_heart(1,2) len d3, of 0]
  obtain vs1 vs2 where
    r1: "updateHeartGeometry_p1 0 demo_animation = Inr (demo_animation\<lparr>heart := Some vs1\<rparr>)"
      "length vs1 = length [1, 0, 0, 0, 2, 0 :: real]"
      "\<forall>k. k < length [1, 0, 0, 0, 2, 0 :: real] div 3 \<longrightarrow>
         vertex vs1 k =
           multiplyScalar
             (spec_scale (simplex demo_animation) (x (vertex [1, 0, 0, 0, 2, 0] k))
                (y (vertex [1, 0, 0, 0, 2, 0] k)) (z (vertex [1, 0, 0, 0, 2, 0] k)) 0
                (beat demo_animation))
             (vertex [1, 0, 0, 0, 2, 0] k)"
    and r2: "updateHeartGeometry_p2 0 demo_animation = Inr (demo_animation\<lparr>heart := Some vs2\<rparr>)"
      "length vs2 = length [1, 0, 0, 0, 2, 0 :: real]"
      "\<forall>k. k < length [1, 0, 0, 0, 2, 0 :: real] div 3 \<longrightarrow>
         vertex vs2 k =
           multiplyScalar
             (scale_p2 (simplex demo_animation) (x (vertex [1, 0, 0, 0, 2, 0] k))
                (y (vertex [1, 0, 0, 0, 2, 0] k)) (z (vertex [1, 0, 0, 0, 2, 0] k)) 0
                (beat demo_animation))
             (vertex [1, 0, 0, 0, 2, 0] k)"
    by blast
  have k0: "(0::nat) < length [1, 0, 0, 0, 2, 0 :: real] div 3"
    and k1: "(1::nat) < length [1, 0, 0, 0, 2, 0 :: real] div 3"
    by simp_all
  have v10: "vertex vs1 0 = \<lparr>x = 9/80, y = 0, z = 0\<rparr>"
    using r1(3) [rule_format, OF k0]
    by (simp add: demo_vertices demo_heart multiplyScalar_def spec_scale_def
        NOISE_SCALE_def NOISE_AMPLITUDE_def)
  have v11: "vertex vs1 1 = \<lparr>x = 0, y = 9/40, z = 0\<rparr>"
    using r1(3) [rule_format, OF k1]
    by (simp add: demo_vertices demo_heart multiplyScalar_def spec_scale_def
        NOISE_SCALE_def NOISE_AMPLITUDE_def)
  have v20: "vertex vs2 0 = \<lparr>x = 3/40, y = 0, z = 0\<rparr>"
    using r2(3) [rule_format, OF k0]
    by (simp add: demo_vertices demo_heart multiplyScalar_def scale_p2_def
        NOISE_SCALE_def NOISE_AMPLITUDE_def)
  have v21: "vertex vs2 1 = \<lparr>x = 0, y = 3/20, z = 0\<rparr>"
    using r2(3) [rule_format, OF k1]
    by (simp add: demo_vertices demo_heart multiplyScalar_def scale_p2_def
        NOISE_SCALE_def NOISE_AMPLITUDE_def)
  have l1: "length vs1 = 6" and l2: "length vs2 = 6"
    using r1(2) r2(2) by simp_all
  from r1(1) l1 v10 v11 r2(1) l2 v20 v21 show ?thesis by blast
qed

text \<open>
  Claim C2, as the specification states it: for every spark with origin \<open>p\<close> the update
  sets the near position to \<open>p \<times> (1.01 + noise\<^sub>1 \<times> noise_scale \<times> noise_amplitude \<times> beat)\<close>,
  in both variants. The variant of \<^verbatim>\<open>part_002\<close> does not: for the spark at
  \<open>(0, 0, 1)\<close>, at beat \<open>0.5\<close> and noise \<open>0\<close>, its factor is \<open>1.1225\<close> where the claim
  gives \<open>1.17875\<close>.
\<close>

theorem C2_near_p2_counterexample:
  "one (SparkPoint_update_p2 (1/2) spark0) \<noteq>
     Some (spec_near (SparkPoint.simplex spark0) (pos spark0) (1/2))"
  by (simp add: SparkPoint_update_p2_def spark0_def spec_near_def spec_noise1_def
      multiplyScalar_def clone_def NOISE_SCALE_def NOISE_AMPLITUDE_def)

text \<open>
  Claim C2, amended: for every spark with origin \<open>p\<close> and every beat, the update computes
  \<open>noise\<^sub>1 = noise4D(p.x, p.y, p.z, 0.1) + 1.5\<close> (the fourth input is the constant
  \<open>0.1\<close>, never the time) and \<open>noise\<^sub>2 = noise4D(p.x F, p.y F, p.z F, 1) + 1\<close>; the far
  position is \<open>p \<times> (1 + noise\<^sub>2 \<times> (beat + 0.3) - beat \<times> 1.2)\<close> in both variants; the near
  position is \<open>p \<times> (1.01 + noise\<^sub>1 \<times> noise_scale \<times> noise_amplitude \<times> beat)\<close> in the variant
  of \<^verbatim>\<open>part_001\<close> and \<open>p \<times> (1.01 + noise\<^sub>1 \<times> noise_amplitude \<times> beat)\<close> in the variant
  of \<^verbatim>\<open>part_002\<close>.
\<close>

theorem C2_spark_update_formulas:
  "one (SparkPoint_update_p1 bt s) = Some (spec_near (SparkPoint.simplex s) (pos s) bt) \<and>
   two (SparkPoint_update_p1 bt s) = Some (spec_far (SparkPoint.simplex s) (pos s) bt) \<and>
   one (SparkPoint_update_p2 bt s) =
     Some (multiplyScalar (1.01 + spec_noise1 (SparkPoint.simplex s) (pos s) * NOISE_AMPLITUDE * bt) (pos s)) \<and>
   two (SparkPoint_update_p2 bt s) = Some (spec_far (SparkPoint.simplex s) (pos s) bt)"
  by (simp add: SparkPoint_update_p1_def SparkPoint_update_p2_def Let_def spec_near_def spec_far_def
      spec_noise1_def spec_noise2_def multiplyScalar_def clone_def NOISE_SCALE_AMPLITUDE_def
      mult.assoc)

text \<open>
  Claim C3: in a frame, the submitted buffers hold, spark after spark in the order of
  \<^verbatim>\<open>spikes\<close>, the near-layer entry of a spark exactly when the z of its near position
  lies strictly within \<open>\<plusminus>(MAX_Z \<times> RATE_Z + 1 \<times> jitter)\<close>, followed by its far-layer entry
  exactly when the z of its NEAR position lies strictly within
  \<open>\<plusminus>(MAX_Z \<times> RATE_Z + 2 \<times> jitter)\<close>, and nothing else. This holds in both variants when
  every spark has a colour; in \<^verbatim>\<open>part_001\<close> the two preallocated buffers must have room
  for six numbers per spark, as the ones the constructor allocates have.
\<close>

theorem C3_render_buffer_entries:
  assumes "\<forall>s \<in> set (spikes this). color s \<noteq> None"
  shows "(6 * length (spikes this) \<le> length (positions this) \<and>
          6 * length (spikes this) \<le> length (colors this) \<longrightarrow>
          (\<exists>this'. updateParticles_p1 this = Inr this' \<and>
             spikes this' = map (SparkPoint_update_p1 (beat this)) (spikes this) \<and>
             geometry_position this' =
               Some (flat_positions (concat (map spec_spark_layers (spikes this')))) \<and>
             geometry_color this' =
               Some (flat_colors (concat (map spec_spark_layers (spikes this')))))) \<and>
         (\<exists>this'. updateParticles_p2 this = Inr this' \<and>
             spikes this' = map (SparkPoint_update_p2 (beat this)) (spikes this) \<and>
             geometry_position this' =
               Some (flat_positions (concat (map spec_spark_layers (spikes this')))) \<and>
             geometry_color this' =
               Some (flat_colors (concat (map spec_spark_layers (spikes this')))))"
proof (intro conjI impI)
  assume room: "6 * length (spikes this) \<le> length (positions this) \<and>
                6 * length (spikes this) \<le> length (colors this)"
  from particleLoop_p1_writes [OF assms, of 0 "positions this" 0 "colors this" "beat this"] room
  obtain ps' cs' n where lp:
    "particleLoop_p1 (beat this) (spikes this) (positions this, colors this, 0, 0) =
       Inr (map (SparkPoint_update_p1 (beat this)) (spikes this), ps', cs', n, n)"
    "take n ps' =
       flat_positions (concat (map spec_spark_layers (map (SparkPoint_update_p1 (beat this)) (spikes this))))"
    "take n cs' =
       flat_colors (concat (map spec_spark_layers (map (SparkPoint_update_p1 (beat this)) (spikes this))))"
    by auto
  show "\<exists>this'. updateParticles_p1 this = Inr this' \<and>
             spikes this' = map (SparkPoint_update_p1 (beat this)) (spikes this) \<and>
             geometry_position this' =
               Some (flat_positions (concat (map spec_spark_layers (spikes this')))) \<and>
             geometry_color this' =
               Some (flat_colors (concat (map spec_spark_layers (spikes this'))))"
    by (simp add: updateParticles_p1_def lp)
next
  show "\<exists>this'. updateParticles_p2 this = Inr this' \<and>
             spikes this' = map (SparkPoint_update_p2 (beat this)) (spikes this) \<and>
             geometry_position this' =
               Some (flat_positions (concat (map spec_spark_layers (spikes this')))) \<and>
             geometry_color this' =
               Some (flat_colors (concat (map spec_spark_layers (spikes this'))))"
    by (simp add: updateParticles_p2_def particleLoop_p2_pushes [OF assms] flat_positions_def flat_colors_def)
qed

text \<open>
  On the three sparks: in \<^verbatim>\<open>part_001\<close> the first spark gives both layers, the second
  only its far layer (its near z, \<open>0.1296625\<close>, is outside \<open>\<plusminus>0.125\<close> and inside
  \<open>\<plusminus>0.135\<close>), the third nothing; in \<^verbatim>\<open>part_002\<close> the first two give both layers.
\<close>

theorem C3_render_buffer_entries_witness:
  "(\<exists>this'. updateParticles_p1 demo_animation = Inr this' \<and>
      geometry_position this' = Some [0, 0, 943/8000, 0, 0, 3/25, 0, 0, 33/250] \<and>
      geometry_color this' = Some [1, 0, 0, 1, 0, 0, 0, 1, 0]) \<and>
   (\<exists>this'. updateParticles_p2 demo_animation = Inr this' \<and>
      geometry_position this' =
        Some [0, 0, 449/4000, 0, 0, 3/25, 0, 0, 4939/40000, 0, 0, 33/250] \<and>
      geometry_color this' = Some [1, 0, 0, 1, 0, 0, 0, 1, 0, 0, 1, 0])"
proof -
  have c: "\<forall>s \<in> set (spikes demo_animation). color s \<noteq> None"
    by (simp add: demo_animation_def demo_spikes_def demo_spark_def)
  have room: "6 * length (spikes demo_animation) \<le> length (positions demo_animation) \<and>
              6 * length (spikes demo_animation) \<le> length (colors demo_animation)"
    by (simp add: demo_animation_def demo_spikes_def demo_spark_def)
  from C3_render_buffer_entries [OF c] room obtain this1 this2 where
    t1: "updateParticles_p1 demo_animation = Inr this1"
      "spikes this1 = map (SparkPoint_update_p1 (beat demo_animation)) (spikes demo_animation)"
      "geometry_position this1 = Some (flat_positions (concat (map spec_spark_layers (spikes this1))))"
      "geometry_color this1 = Some (flat_colors (concat (map spec_spark_layers (spikes this1))))"
    and t2: "updateParticles_p2 demo_animation = Inr this2"
      "spikes this2 = map (SparkPoint_update_p2 (beat demo_animation)) (spikes demo_animation)"
      "geometry_position this2 = Some (flat_positions (concat (map spec_spark_layers (spikes this2))))"
      "geometry_color this2 = Some (flat_colors (concat (map spec_spark_layers (spikes this2))))"
    by blast
  have s1: "spikes this1 = map (SparkPoint_update_p1 (1/2)) demo_spikes"
    using t1(2) by (simp add: demo_animation_def)
  have s2: "spikes this2 = map (SparkPoint_update_p2 (1/2)) demo_spikes"
    using t2(2) by (simp add: demo_animation_def)
  have p1: "flat_positions (concat (map spec_spark_layers (spikes this1))) =
          [0, 0, 943/8000, 0, 0, 3/25, 0, 0, 33/250]"
    unfolding s1 demo_updated_p1
    by (simp add: spec_spark_layers_def spec_layers_def within_window_def flat_positions_def
        MAX_Z_def RATE_Z_def)
  have c1: "flat_colors (concat (map spec_spark_layers (spikes this1))) =
          [1, 0, 0, 1, 0, 0, 0, 1, 0]"
    unfolding s1 demo_updated_p1
    by (simp add: spec_spark_layers_def spec_layers_def within_window_def flat_colors_def
        MAX_Z_def RATE_Z_def)
  have p2: "flat_positions (concat (map spec_spark_layers (spikes this2))) =
          [0, 0, 449/4000, 0, 0, 3/25, 0, 0, 4939/40000, 0, 0, 33/250]"
    unfolding s2 demo_updated_p2
    by (simp add: spec_spark_layers_def spec_layers_def within_window_def flat_positions_def
        MAX_Z_def RATE_Z_def)
  have c2: "flat_colors (concat (map spec_spark_layers (spikes this2))) =
          [1, 0, 0, 1, 0, 0, 0, 1, 0, 0, 1, 0]"
    unfolding s2 demo_updated_p2
    by (simp add: spec_spark_layers_def spec_layers_def within_window_def flat_colors_def
        MAX_Z_def RATE_Z_def)
  from t1 t2 p1 c1 p2 c2 show ?thesis by simp
qed

text \<open>
  Claim C4: with beat \<open>0\<close> the vertex-displacement update puts every vertex of the loaded
  mesh at \<open>(0, 0, 0)\<close>, and it does so after any run of earlier frames, whatever their
  times and beats: the last frame of the run alone decides. Both variants.
\<close>

theorem C4_beat_zero_resets:
  assumes "heart this = Some vs" and "originHeart this = Some oh"
    and "length oh = length vs" and "3 dvd length vs"
  shows "(\<exists>this'. heartFrames_p1 (frames @ [(time, 0)]) this = Inr this' \<and>
            heart this' = Some (replicate (length vs) 0)) \<and>
         (\<exists>this'. heartFrames_p2 (frames @ [(time, 0)]) this = Inr this' \<and>
            heart this' = Some (replicate (length vs) 0))"
proof -
  from assms have le: "length vs \<le> length oh" by simp
  from heartFrames_p1_keeps [OF assms(1,2) le assms(4), of frames] obtain t1 vs1 where
    k1: "heartFrames_p1 frames this = Inr t1" "heart t1 = Some vs1" "length vs1 = length vs"
      "originHeart t1 = Some oh"
    by blast
  from heartFrames_p2_keeps [OF assms(1,2) le assms(4), of frames] obtain t2 vs2 where
    k2: "heartFrames_p2 frames this = Inr t2" "heart t2 = Some vs2" "length vs2 = length vs"
      "originHeart t2 = Some oh"
    by blast
  have "\<exists>this'. updateHeartGeometry_p1 time (t1\<lparr>beat := 0\<rparr>) = Inr this' \<and>
           heart this' = Some (replicate (length vs1) 0)"
    using k1 le assms(4) by (intro rest_frame_p1 [of t1 vs1 oh]) simp_all
  then have a: "\<exists>this'. heartFrames_p1 (frames @ [(time, 0)]) this = Inr this' \<and>
            heart this' = Some (replicate (length vs) 0)"
    using k1 by (auto simp: heartFrames_p1_append)
  have "\<exists>this'. updateHeartGeometry_p2 time (t2\<lparr>beat := 0\<rparr>) = Inr this' \<and>
           heart this' = Some (replicate (length vs2) 0)"
    using k2 le assms(4) by (intro rest_frame_p2 [of t2 vs2 oh]) simp_all
  then have b: "\<exists>this'. heartFrames_p2 (frames @ [(time, 0)]) this = Inr this' \<and>
            heart this' = Some (replicate (length vs) 0)"
    using k2 by (auto simp: heartFrames_p2_append)
  from a b show ?thesis by blast
qed

text \<open>Two beating frames, then a frame at rest, on the mesh of two vertices.\<close>

theorem C4_beat_zero_resets_witness:
  "(\<exists>this'. heartFrames_p1 [(16, 1/2), (32, 1/4), (48, 0)] demo_animation = Inr this' \<and>
      heart this' = Some [0, 0, 0, 0, 0, 0]) \<and>
   (\<exists>this'. heartFrames_p2 [(16, 1/2), (32, 1/4), (48, 0)] demo_animation = Inr this' \<and>
      heart this' = Some [0, 0, 0, 0, 0, 0])"
proof -
  have len: "length [1, 0, 0, 0, 2, 0 :: real] = length [1, 0, 0, 0, 2, 0 :: real]"
    by simp
  have r: "replicate (length [1, 0, 0, 0, 2, 0 :: real]) (0::real) = [0, 0, 0, 0, 0, 0]"
    by (simp add: numeral_eq_Suc)
  from C4_beat_zero_resets [OF demo_heart(1,2) len demo_heart_dvd, of "[(16, 1/2), (32, 1/4)]" 48]
  show ?thesis unfolding r by simp
qed

text \<open>
  Claim C5: the depth-window test is monotonic in the jitter. For \<open>j1 \<le> j2\<close> and the same
  near position, a position accepted under \<open>j1\<close> is accepted under \<open>j2\<close>, for the window
  of either layer (factor 1 and factor 2) and in both variants.
\<close>

theorem C5_jitter_monotone:
  assumes "j1 \<le> j2"
  shows "(layer1_visible_p1 j1 v \<longrightarrow> layer1_visible_p1 j2 v) \<and>
         (layer2_visible_p1 j1 v \<longrightarrow> layer2_visible_p1 j2 v) \<and>
         (layer1_visible_p2 j1 v \<longrightarrow> layer1_visible_p2 j2 v) \<and>
         (layer2_visible_p2 j1 v \<longrightarrow> layer2_visible_p2 j2 v)"
  using assms
  by (auto simp: layer1_visible_p1_def layer2_visible_p1_def layer1_visible_p2_def layer2_visible_p2_def)

text \<open>
  A near position at depth \<open>0.12\<close> is accepted by all four tests under jitter \<open>0.01\<close>,
  hence under jitter \<open>0.02\<close>.
\<close>

theorem C5_jitter_monotone_witness:
  "(1/100 :: real) \<le> 1/50 \<and>
   layer1_visible_p1 (1/100) \<lparr>x = 0, y = 0, z = 3/25\<rparr> \<and>
   layer1_visible_p1 (1/50) \<lparr>x = 0, y = 0, z = 3/25\<rparr> \<and>
   layer2_visible_p1 (1/50) \<lparr>x = 0, y = 0, z = 3/25\<rparr> \<and>
   layer1_visible_p2 (1/50) \<lparr>x = 0, y = 0, z = 3/25\<rparr> \<and>
   layer2_visible_p2 (1/50) \<lparr>x = 0, y = 0, z = 3/25\<rparr>"
proof -
  have le: "(1/100 :: real) \<le> 1/50" by simp
  have a: "layer1_visible_p1 (1/100) \<lparr>x = 0, y = 0, z = 3/25\<rparr>"
      "layer2_visible_p1 (1/100) \<lparr>x = 0, y = 0, z = 3/25\<rparr>"
      "layer1_visible_p2 (1/100) \<lparr>x = 0, y = 0, z = 3/25\<rparr>"
      "layer2_visible_p2 (1/100) \<lparr>x = 0, y = 0, z = 3/25\<rparr>"
    by (simp_all add: layer1_visible_p1_def layer2_visible_p1_def layer1_visible_p2_def
        layer2_visible_p2_def MAX_Z_RATE_Z_def MAX_Z_def RATE_Z_def)
  from C5_jitter_monotone [OF le, of "\<lparr>x = 0, y = 0, z = 3/25\<rparr>"] a le show ?thesis by blast
qed

text \<open>
  Claim C6: after the render-buffer assembly of a frame, the submitted position buffer and
  the submitted colour buffer have the same length, a length divisible by 3 and at most
  \<open>2 \<times> PARTICLE_COUNT \<times> 3\<close>, for any beat, any jitters and any noise function. In
  \<^verbatim>\<open>part_001\<close> this rests on the two buffers of \<open>PARTICLE_COUNT \<times> 6\<close> cells the
  constructor allocates, in \<^verbatim>\<open>part_002\<close> on there being at most \<open>PARTICLE_COUNT\<close>
  sparks, as \<^verbatim>\<open>initParticles\<close> makes; every spark has a colour. The frame keeps all of
  this for the next one.
\<close>

theorem C6_render_buffer_lengths:
  assumes "\<forall>s \<in> set (spikes this). color s \<noteq> None"
  shows "(length (positions this) = PARTICLE_COUNT_6 \<and> length (colors this) = PARTICLE_COUNT_6 \<longrightarrow>
           (\<exists>this'. updateParticles_p1 this = Inr this' \<and> submitted_ok this' \<and>
              length (positions this') = PARTICLE_COUNT_6 \<and>
              length (colors this') = PARTICLE_COUNT_6 \<and>
              (\<forall>s \<in> set (spikes this'). color s \<noteq> None))) \<and>
         (length (spikes this) \<le> PARTICLE_COUNT \<longrightarrow>
           (\<exists>this'. updateParticles_p2 this = Inr this' \<and> submitted_ok this' \<and>
              length (spikes this') \<le> PARTICLE_COUNT \<and>
              (\<forall>s \<in> set (spikes this'). color s \<noteq> None)))"
proof (intro conjI impI)
  assume alloc: "length (positions this) = PARTICLE_COUNT_6 \<and> length (colors this) = PARTICLE_COUNT_6"
  from updateParticles_p1_total [OF assms] obtain this' where u: "updateParticles_p1 this = Inr this'"
    by blast
  from updateParticles_p1_Inr [OF u] obtain ps cs k where
    r: "length ps = length (positions this)" "length cs = length (colors this)"
      "this' = this\<lparr>spikes := map (SparkPoint_update_p1 (beat this)) (spikes this),
                   positions := ps, colors := cs,
                   geometry_position := Some (take (3 * k) ps),
                   geometry_color := Some (take (3 * k) cs)\<rparr>"
    by blast
  have d: "3 dvd PARTICLE_COUNT_6" by (simp add: PARTICLE_COUNT_6_def)
  have lp: "length ps = PARTICLE_COUNT_6" and lc: "length cs = PARTICLE_COUNT_6"
    using r alloc by simp_all
  have d3: "3 dvd min (length ps) (3 * k)" using d lp by (simp add: min_def)
  have le: "min (length ps) (3 * k) \<le> 2 * PARTICLE_COUNT * 3"
    using lp by (simp add: PARTICLE_COUNT_6_def)
  have "submitted_ok this'"
    using d3 le by (simp add: submitted_ok_def r(3) lp lc)
  moreover have "\<forall>s \<in> set (spikes this'). color s \<noteq> None"
    using assms r(3) by (simp add: update_p1_fields)
  ultimately show "\<exists>this'. updateParticles_p1 this = Inr this' \<and> submitted_ok this' \<and>
              length (positions this') = PARTICLE_COUNT_6 \<and>
              length (colors this') = PARTICLE_COUNT_6 \<and>
              (\<forall>s \<in> set (spikes this'). color s \<noteq> None)"
    using u r alloc by auto
next
  assume n: "length (spikes this) \<le> PARTICLE_COUNT"
  from updateParticles_p2_total [OF assms] obtain this' where u: "updateParticles_p2 this = Inr this'"
    by blast
  from updateParticles_p2_Inr [OF u] obtain ps cs k where
    r: "k \<le> 2 * length (spikes this)" "length ps = 3 * k" "length cs = 3 * k"
      "this' = this\<lparr>spikes := map (SparkPoint_update_p2 (beat this)) (spikes this),
                   positions := ps, colors := cs,
                   geometry_position := Some ps, geometry_color := Some cs\<rparr>"
    by blast
  have "submitted_ok this'"
    using r n by (simp add: submitted_ok_def)
  moreover have "\<forall>s \<in> set (spikes this'). color s \<noteq> None"
    using assms r(4) by (simp add: update_p2_fields)
  ultimately show "\<exists>this'. updateParticles_p2 this = Inr this' \<and> submitted_ok this' \<and>
              length (spikes this') \<le> PARTICLE_COUNT \<and>
              (\<forall>s \<in> set (spikes this'). color s \<noteq> None)"
    using u r n by auto
qed

text \<open>The three sparks with the buffers of \<open>60000\<close> cells.\<close>

theorem C6_render_buffer_lengths_witness:
  "(\<exists>this'. updateParticles_p1 demo_allocated = Inr this' \<and> submitted_ok this') \<and>
   (\<exists>this'. updateParticles_p2 demo_allocated = Inr this' \<and> submitted_ok this')"
proof -
  have c: "\<forall>s \<in> set (spikes demo_allocated). color s \<noteq> None"
    by (simp add: demo_allocated_def demo_animation_def demo_spikes_def demo_spark_def)
  have a: "length (positions demo_allocated) = PARTICLE_COUNT_6 \<and>
           length (colors demo_allocated) = PARTICLE_COUNT_6"
    by (simp add: demo_allocated_def)
  have n: "length (spikes demo_allocated) \<le> PARTICLE_COUNT"
    by (simp add: demo_allocated_def demo_animation_def demo_spikes_def demo_spark_def PARTICLE_COUNT_def)
  from C6_render_buffer_lengths [OF c] a n show ?thesis by blast
qed

text \<open>
  Claim C7: the near and far positions of a spark are a function of its origin, its noise
  function and the beat alone. Two sparks with the same origin and the same noise function
  get the same near and far positions from an update at the same beat, whatever their
  jitter, their colour, their previous near and far positions and the updates (any
  number, at any beats) each has gone through before; \<^verbatim>\<open>update\<close> takes no time argument.
\<close>

theorem C7_spark_layers_pure_in_beat:
  assumes "pos s1 = pos s2" and "SparkPoint.simplex s1 = SparkPoint.simplex s2"
  shows "one (SparkPoint_update_p1 bt (fold SparkPoint_update_p1 bs1 s1)) =
           one (SparkPoint_update_p1 bt (fold SparkPoint_update_p1 bs2 s2)) \<and>
         two (SparkPoint_update_p1 bt (fold SparkPoint_update_p1 bs1 s1)) =
           two (SparkPoint_update_p1 bt (fold SparkPoint_update_p1 bs2 s2)) \<and>
         one (SparkPoint_update_p2 bt (fold SparkPoint_update_p2 bs1 s1)) =
           one (SparkPoint_update_p2 bt (fold SparkPoint_update_p2 bs2 s2)) \<and>
         two (SparkPoint_update_p2 bt (fold SparkPoint_update_p2 bs1 s1)) =
           two (SparkPoint_update_p2 bt (fold SparkPoint_update_p2 bs2 s2))"
proof -
  have p1: "pos (fold SparkPoint_update_p1 bs1 s1) = pos (fold SparkPoint_update_p1 bs2 s2)"
    and n1: "SparkPoint.simplex (fold SparkPoint_update_p1 bs1 s1) =
             SparkPoint.simplex (fold SparkPoint_update_p1 bs2 s2)"
    using assms by (simp_all add: fold_update_p1_fields)
  have p2: "pos (fold SparkPoint_update_p2 bs1 s1) = pos (fold SparkPoint_update_p2 bs2 s2)"
    and n2: "SparkPoint.simplex (fold SparkPoint_update_p2 bs1 s1) =
             SparkPoint.simplex (fold SparkPoint_update_p2 bs2 s2)"
    using assms by (simp_all add: fold_update_p2_fields)
  from update_p1_depends [OF p1 n1] update_p2_depends [OF p2 n2] show ?thesis by blast
qed

text \<open>
  The spark at \<open>(0, 0, 1)\<close> after two earlier updates, and another spark at the same
  origin with another jitter, no colour and a stale near position.
\<close>

theorem C7_spark_layers_pure_in_beat_witness:
  "one (SparkPoint_update_p1 (1/2) (fold SparkPoint_update_p1 [1/4, 0] spark0)) =
     one (SparkPoint_update_p1 (1/2)
       (spark0\<lparr>color := None, rand := 1/50, one := Some \<lparr>x = 7, y = 7, z = 7\<rparr>\<rparr>)) \<and>
   two (SparkPoint_update_p1 (1/2) (fold SparkPoint_update_p1 [1/4, 0] spark0)) =
     two (SparkPoint_update_p1 (1/2)
       (spark0\<lparr>color := None, rand := 1/50, one := Some \<lparr>x = 7, y = 7, z = 7\<rparr>\<rparr>)) \<and>
   one (SparkPoint_update_p2 (1/2) (fold SparkPoint_update_p2 [1/4, 0] spark0)) =
     one (SparkPoint_update_p2 (1/2)
       (spark0\<lparr>color := None, rand := 1/50, one := Some \<lparr>x = 7, y = 7, z = 7\<rparr>\<rparr>)) \<and>
   two (SparkPoint_update_p2 (1/2) (fold SparkPoint_update_p2 [1/4, 0] spark0)) =
     two (SparkPoint_update_p2 (1/2)
       (spark0\<lparr>color := None, rand := 1/50, one := Some \<lparr>x = 7, y = 7, z = 7\<rparr>\<rparr>))"
  using C7_spark_layers_pure_in_beat
    [of spark0 "spark0\<lparr>color := None, rand := 1/50, one := Some \<lparr>x = 7, y = 7, z = 7\<rparr>\<rparr>"
        "1/2" "[1/4, 0]" "[]"]
  by simp

text \<open>
  Claim C8: a frame (\<^verbatim>\<open>render\<close>: \<^verbatim>\<open>updateParticles\<close>, then
  \<^verbatim>\<open>updateHeartGeometry\<close>) never overwrites \<^verbatim>\<open>originHeart\<close> nor the origin position,
  the colour or the jitter of any spark: after every frame that completes they are what
  they were before it, in both variants. A frame completes when every spark has a colour
  and the mesh is loaded.
\<close>

theorem C8_origins_never_overwritten:
  "(\<forall>this'. render_p1 hidden time this = Inr this' \<longrightarrow>
      originHeart this' = originHeart this \<and>
      map pos (spikes this') = map pos (spikes this) \<and>
      map color (spikes this') = map color (spikes this) \<and>
      map rand (spikes this') = map rand (spikes this)) \<and>
   (\<forall>this'. render_p2 time this = Inr this' \<longrightarrow>
      originHeart this' = originHeart this \<and>
      map pos (spikes this') = map pos (spikes this) \<and>
      map color (spikes this') = map color (spikes this) \<and>
      map rand (spikes this') = map rand (spikes this)) \<and>
   ((\<forall>s \<in> set (spikes this). color s \<noteq> None) \<and>
    (\<exists>vs oh. heart this = Some vs \<and> originHeart this = Some oh \<and>
       length oh = length vs \<and> 3 dvd length vs) \<longrightarrow>
    (\<exists>this'. render_p1 hidden time this = Inr this') \<and>
    (\<exists>this'. render_p2 time this = Inr this'))"
proof (intro conjI allI impI)
  fix this'
  assume "render_p1 hidden time this = Inr this'"
  from render_p1_keeps [OF this]
  show "originHeart this' = originHeart this" "map pos (spikes this') = map pos (spikes this)"
    "map color (spikes this') = map color (spikes this)"
    "map rand (spikes this') = map rand (spikes this)"
    by simp_all
next
  fix this'
  assume "render_p2 time this = Inr this'"
  from render_p2_keeps [OF this]
  show "originHeart this' = originHeart this" "map pos (spikes this') = map pos (spikes this)"
    "map color (spikes this') = map color (spikes this)"
    "map rand (spikes this') = map rand (spikes this)"
    by simp_all
next
  assume a: "(\<forall>s \<in> set (spikes this). color s \<noteq> None) \<and>
    (\<exists>vs oh. heart this = Some vs \<and> originHeart this = Some oh \<and>
       length oh = length vs \<and> 3 dvd length vs)"
  then obtain vs oh where
    w: "heart this = Some vs" "originHeart this = Some oh" "length vs \<le> length oh" "3 dvd length vs"
    by auto
  from a have c: "\<forall>s \<in> set (spikes this). color s \<noteq> None" by simp
  show "\<exists>this'. render_p1 hidden time this = Inr this'"
    by (rule render_p1_total [OF c w])
  show "\<exists>this'. render_p2 time this = Inr this'"
    by (rule render_p2_total [OF c w])
qed

text \<open>A frame of either variant on the animation with three sparks and two vertices.\<close>

theorem C8_origins_never_overwritten_witness:
  "(\<exists>this'. render_p1 False 16 demo_animation = Inr this' \<and>
      originHeart this' = Some [1, 0, 0, 0, 2, 0] \<and>
      map pos (spikes this') =
        [\<lparr>x = 0, y = 0, z = 1/10\<rparr>, \<lparr>x = 0, y = 0, z = 11/100\<rparr>, \<lparr>x = 0, y = 0, z = 1\<rparr>] \<and>
      map rand (spikes this') = [1/100, 1/100, 1/100]) \<and>
   (\<exists>this'. render_p2 16 demo_animation = Inr this' \<and>
      originHeart this' = Some [1, 0, 0, 0, 2, 0] \<and>
      map pos (spikes this') =
        [\<lparr>x = 0, y = 0, z = 1/10\<rparr>, \<lparr>x = 0, y = 0, z = 11/100\<rparr>, \<lparr>x = 0, y = 0, z = 1\<rparr>] \<and>
      map rand (spikes this') = [1/100, 1/100, 1/100])"
proof -
  note inst = C8_origins_never_overwritten [of False 16 demo_animation]
  have c: "\<forall>s \<in> set (spikes demo_animation). color s \<noteq> None"
    by (simp add: demo_animation_def demo_spikes_def demo_spark_def)
  have w: "\<exists>vs oh. heart demo_animation = Some vs \<and> originHeart demo_animation = Some oh \<and>
       length oh = length vs \<and> 3 dvd length vs"
    using demo_heart(1,2) demo_heart_dvd by auto
  from inst c w obtain t1 t2 where
    r: "render_p1 False 16 demo_animation = Inr t1" "render_p2 16 demo_animation = Inr t2"
    by blast
  from inst r have
    "originHeart t1 = originHeart demo_animation \<and>
     map pos (spikes t1) = map pos (spikes demo_animation) \<and>
     map rand (spikes t1) = map rand (spikes demo_animation)"
    "originHeart t2 = originHeart demo_animation \<and>
     map pos (spikes t2) = map pos (spikes demo_animation) \<and>
     map rand (spikes t2) = map rand (spikes demo_animation)"
    by blast+
  then have f1:
    "originHeart t1 = Some [1, 0, 0, 0, 2, 0] \<and>
      map pos (spikes t1) =
        [\<lparr>x = 0, y = 0, z = 1/10\<rparr>, \<lparr>x = 0, y = 0, z = 11/100\<rparr>, \<lparr>x = 0, y = 0, z = 1\<rparr>] \<and>
      map rand (spikes t1) = [1/100, 1/100, 1/100]"
    and f2:
    "originHeart t2 = Some [1, 0, 0, 0, 2, 0] \<and>
      map pos (spikes t2) =
        [\<lparr>x = 0, y = 0, z = 1/10\<rparr>, \<lparr>x = 0, y = 0, z = 11/100\<rparr>, \<lparr>x = 0, y = 0, z = 1\<rparr>] \<and>
      map rand (spikes t2) = [1/100, 1/100, 1/100]"
    by (simp_all add: demo_animation_def demo_spikes_def demo_spark_def)
  show ?thesis
  proof
    from r(1) f1 show "\<exists>this'. render_p1 False 16 demo_animation = Inr this' \<and>
      originHeart this' = Some [1, 0, 0, 0, 2, 0] \<and>
      map pos (spikes this') =
        [\<lparr>x = 0, y = 0, z = 1/10\<rparr>, \<lparr>x = 0, y = 0, z = 11/100\<rparr>, \<lparr>x = 0, y = 0, z = 1\<rparr>] \<and>
      map rand (spikes this') = [1/100, 1/100, 1/100]"
      by (intro exI [of _ t1] conjI) (rule refl | elim conjE | assumption)+
    from r(2) f2 show "\<exists>this'. render_p2 16 demo_animation = Inr this' \<and>
      originHeart this' = Some [1, 0, 0, 0, 2, 0] \<and>
      map pos (spikes this') =
        [\<lparr>x = 0, y = 0, z = 1/10\<rparr>, \<lparr>x = 0, y = 0, z = 11/100\<rparr>, \<lparr>x = 0, y = 0, z = 1\<rparr>] \<and>
      map rand (spikes this') = [1/100, 1/100, 1/100]"
      by (intro exI [of _ t2] conjI) (rule refl | elim conjE | assumption)+
  qed
qed

text \<open>
  Claim C9, as the specification states it: in every variant, a failed model load is
  surfaced with an explicit retry action that re-invokes the fetch. The handler of
  \<^verbatim>\<open>part_002\<close> offers none: on a page that has the retry button, it leaves the button
  hidden and without a handler, a click on it does nothing, and no request is made.
\<close>

theorem C9_no_retry_p2_counterexample:
  "\<not> retry_offered (onHeartError_p2 demo_page) \<and>
   click_errorRetry (onHeartError_p2 demo_page) = Some (onHeartError_p2 demo_page) \<and>
   loaderRequests (onHeartError_p2 demo_page) = loaderRequests demo_page"
  by (simp add: retry_offered_def onHeartError_p2_def showError_p2_def click_errorRetry_def demo_page_def)

text \<open>
  Claim C9, amended: in the variant of \<^verbatim>\<open>part_001\<close>, on a page that has the elements of
  the error display, a failed model load shows the error with its message and shows the
  retry button, whose click calls \<^verbatim>\<open>loadHeartModel\<close> again and so makes one more
  request of the model. In the variant of \<^verbatim>\<open>part_002\<close> the failure is shown as a message
  followed by the request to refresh the page; the handler installs no retry action and
  makes no request.
\<close>

theorem C9_model_load_error:
  "(errorDisplay page \<noteq> None \<and> errorMessage page \<noteq> None \<and> errorRetry page \<noteq> None \<longrightarrow>
      errorDisplay (onHeartError_p1 page) = Some False \<and>
      errorMessage (onHeartError_p1 page) =
        Some ''Failed to load heart model. Please check your internet connection and refresh the page.'' \<and>
      retry_offered (onHeartError_p1 page) \<and>
      click_errorRetry (onHeartError_p1 page) = Some (loadHeartModel (onHeartError_p1 page)) \<and>
      loaderRequests (loadHeartModel (onHeartError_p1 page)) = loaderRequests page + 1) \<and>
   errorRetry (onHeartError_p2 page) = errorRetry page \<and>
   loaderRequests (onHeartError_p2 page) = loaderRequests page \<and>
   (loading page \<noteq> None \<longrightarrow>
      loading (onHeartError_p2 page) =
        Some [''Failed to load heart model'', ''Please refresh the page to try again.''])"
  by (auto simp: onHeartError_p1_def Utils_showError_def Let_def retry_offered_def
      click_errorRetry_def loadHeartModel_def onHeartError_p2_def showError_p2_def
      split: option.splits)

text \<open>On the page with all the elements, after one request of the model.\<close>

theorem C9_model_load_error_witness:
  "retry_offered (onHeartError_p1 demo_page) \<and>
   errorDisplay (onHeartError_p1 demo_page) = Some False \<and>
   map_option loaderRequests (click_errorRetry (onHeartError_p1 demo_page)) = Some 2 \<and>
   loading (onHeartError_p2 demo_page) =
     Some [''Failed to load heart model'', ''Please refresh the page to try again.'']"
proof -
  have h: "errorDisplay demo_page \<noteq> None \<and> errorMessage demo_page \<noteq> None \<and>
           errorRetry demo_page \<noteq> None"
    and l: "loading demo_page \<noteq> None" and n: "loaderRequests demo_page = 1"
    by (simp_all add: demo_page_def)
  from C9_model_load_error [of demo_page] h l n show ?thesis by simp
qed

text \<open>
  Claim C10: for a spark with jitter \<open>\<ge> 0\<close>, a near position that passes the near-layer
  test passes the far-layer test (both read the z of the near position). Hence what a
  spark with a colour adds to the position buffer in a frame is nothing, or its far layer,
  or its near layer followed by its far layer, never the near layer alone; and it is both
  layers whenever the near-layer test passes. Both variants; in \<^verbatim>\<open>part_001\<close> the
  preallocated buffers have room for the spark's six numbers.
\<close>

theorem C10_near_layer_implies_far_layer:
  assumes "0 \<le> rand s"
  shows "(\<forall>v. layer1_visible_p1 (rand s) v \<longrightarrow> layer2_visible_p1 (rand s) v) \<and>
         (\<forall>v. layer1_visible_p2 (rand s) v \<longrightarrow> layer2_visible_p2 (rand s) v) \<and>
         (color s \<noteq> None \<and> i + 6 \<le> length ps \<and> j + 6 \<le> length cs \<longrightarrow>
            (\<exists>near far ps' cs' blk.
               one (SparkPoint_update_p1 bt s) = Some near \<and>
               two (SparkPoint_update_p1 bt s) = Some far \<and>
               particleStep_p1 bt s (ps, cs, i, j) =
                 Inr (SparkPoint_update_p1 bt s, ps', cs', i + length blk, j + length blk) \<and>
               take (i + length blk) ps' = take i ps @ blk \<and>
               (blk = [] \<or> blk = [x far, y far, z far] \<or>
                blk = [x near, y near, z near, x far, y far, z far]) \<and>
               (layer1_visible_p1 (rand s) near \<longrightarrow>
                  blk = [x near, y near, z near, x far, y far, z far]))) \<and>
         (color s \<noteq> None \<longrightarrow>
            (\<exists>near far cs' blk.
               one (SparkPoint_update_p2 bt s) = Some near \<and>
               two (SparkPoint_update_p2 bt s) = Some far \<and>
               particleStep_p2 bt s (qs, ds) = Inr (SparkPoint_update_p2 bt s, qs @ blk, cs') \<and>
               (blk = [] \<or> blk = [x far, y far, z far] \<or>
                blk = [x near, y near, z near, x far, y far, z far]) \<and>
               (layer1_visible_p2 (rand s) near \<longrightarrow>
                  blk = [x near, y near, z near, x far, y far, z far])))"
proof (intro conjI allI impI)
  fix v
  from near_visible_far_visible [OF assms, of v]
  show "layer1_visible_p1 (rand s) v \<Longrightarrow> layer2_visible_p1 (rand s) v"
    and "layer1_visible_p2 (rand s) v \<Longrightarrow> layer2_visible_p2 (rand s) v"
    by simp_all
next
  assume a: "color s \<noteq> None \<and> i + 6 \<le> length ps \<and> j + 6 \<le> length cs"
  let ?s = "SparkPoint_update_p1 bt s"
  from a obtain col where col: "color s = Some col" by auto
  obtain near far where v: "one ?s = Some near" "two ?s = Some far"
    using update_p1_layers by blast
  have r: "0 \<le> rand ?s" "color ?s = Some col" "rand ?s = rand s"
    using assms col by (simp_all add: update_p1_fields)
  from a have room: "i + 6 \<le> length ps" "j + 6 \<le> length cs" by simp_all
  from particleStep_p1_writes [OF col room, of bt] obtain ps' cs' where w:
    "particleStep_p1 bt s (ps, cs, i, j) =
       Inr (?s, ps', cs', i + 3 * length (spec_spark_layers ?s), j + 3 * length (spec_spark_layers ?s))"
    "take (i + 3 * length (spec_spark_layers ?s)) ps' = take i ps @ flat_positions (spec_spark_layers ?s)"
    by blast
  let ?blk = "flat_positions (spec_spark_layers ?s)"
  have len: "length ?blk = 3 * length (spec_spark_layers ?s)" by (rule length_flat_positions)
  from spark_block_cases [OF r(1) v r(2)] have
    "(?blk = [] \<or> ?blk = [x far, y far, z far] \<or>
        ?blk = [x near, y near, z near, x far, y far, z far]) \<and>
     (layer1_visible_p1 (rand s) near \<longrightarrow> ?blk = [x near, y near, z near, x far, y far, z far])"
    unfolding r(3) by (auto simp: flat_positions_def)
  with v w show "\<exists>near far ps' cs' blk.
               one ?s = Some near \<and> two ?s = Some far \<and>
               particleStep_p1 bt s (ps, cs, i, j) =
                 Inr (?s, ps', cs', i + length blk, j + length blk) \<and>
               take (i + length blk) ps' = take i ps @ blk \<and>
               (blk = [] \<or> blk = [x far, y far, z far] \<or>
                blk = [x near, y near, z near, x far, y far, z far]) \<and>
               (layer1_visible_p1 (rand s) near \<longrightarrow>
                  blk = [x near, y near, z near, x far, y far, z far])"
    unfolding len [symmetric] by blast
next
  assume "color s \<noteq> None"
  let ?s = "SparkPoint_update_p2 bt s"
  from \<open>color s \<noteq> None\<close> obtain col where col: "color s = Some col" by auto
  obtain near far where v: "one ?s = Some near" "two ?s = Some far"
    using update_p2_layers by blast
  have r: "0 \<le> rand ?s" "color ?s = Some col" "rand ?s = rand s"
    using assms col by (simp_all add: update_p2_fields)
  let ?blk = "flat_positions (spec_spark_layers ?s)"
  from spark_block_cases [OF r(1) v r(2)] have
    "(?blk = [] \<or> ?blk = [x far, y far, z far] \<or>
        ?blk = [x near, y near, z near, x far, y far, z far]) \<and>
     (layer1_visible_p2 (rand s) near \<longrightarrow> ?blk = [x near, y near, z near, x far, y far, z far])"
    unfolding r(3) by (auto simp: flat_positions_def)
  with v particleStep_p2_pushes [OF col, of bt qs ds]
  show "\<exists>near far cs' blk.
               one ?s = Some near \<and> two ?s = Some far \<and>
               particleStep_p2 bt s (qs, ds) = Inr (?s, qs @ blk, cs') \<and>
               (blk = [] \<or> blk = [x far, y far, z far] \<or>
                blk = [x near, y near, z near, x far, y far, z far]) \<and>
               (layer1_visible_p2 (rand s) near \<longrightarrow>
                  blk = [x near, y near, z near, x far, y far, z far])"
    by blast
qed

text \<open>
  The spark at depth \<open>0.1\<close> with jitter \<open>0.01\<close> passes the near-layer test at beat
  \<open>0.5\<close>, and both its layers are written.
\<close>

theorem C10_near_layer_implies_far_layer_witness:
  "layer1_visible_p1 (1/100) \<lparr>x = 0, y = 0, z = 943/8000\<rparr> \<and>
   layer2_visible_p1 (1/100) \<lparr>x = 0, y = 0, z = 943/8000\<rparr> \<and>
   (\<exists>ps' cs'. particleStep_p1 (1/2) demo_spark (replicate 6 0, replicate 6 0, 0, 0) =
        Inr (SparkPoint_update_p1 (1/2) demo_spark, ps', cs', 6, 6) \<and>
      take 6 ps' = [0, 0, 943/8000, 0, 0, 3/25]) \<and>
   (\<exists>cs'. particleStep_p2 (1/2) demo_spark ([], []) =
        Inr (SparkPoint_update_p2 (1/2) demo_spark, [0, 0, 449/4000, 0, 0, 3/25], cs'))"
proof -
  have j: "0 \<le> rand demo_spark" and rd: "rand demo_spark = 1/100"
    and c: "color demo_spark \<noteq> None"
    by (simp_all add: demo_spark_def)
  have room: "0 + 6 \<le> length (replicate 6 (0::real))" by simp
  have v1: "layer1_visible_p1 (1/100) \<lparr>x = 0, y = 0, z = 943/8000\<rparr>"
    and v2: "layer1_visible_p2 (1/100) \<lparr>x = 0, y = 0, z = 449/4000\<rparr>"
    by (simp_all add: layer1_visible_p1_def layer1_visible_p2_def MAX_Z_RATE_Z_def MAX_Z_def RATE_Z_def)
  note inst = C10_near_layer_implies_far_layer
    [where s = demo_spark and i = 0 and ps = "replicate 6 0" and j = 0 and cs = "replicate 6 0"
       and bt = "1/2" and qs = "[]" and ds = "[]", OF j, unfolded rd]
  from inst v1 have w2: "layer2_visible_p1 (1/100) \<lparr>x = 0, y = 0, z = 943/8000\<rparr>" by blast
  from inst c room obtain near far ps' cs' blk where
    a: "one (SparkPoint_update_p1 (1/2) demo_spark) = Some near"
      "two (SparkPoint_update_p1 (1/2) demo_spark) = Some far"
      "particleStep_p1 (1/2) demo_spark (replicate 6 0, replicate 6 0, 0, 0) =
         Inr (SparkPoint_update_p1 (1/2) demo_spark, ps', cs', 0 + length blk, 0 + length blk)"
      "take (0 + length blk) ps' = take 0 (replicate 6 0) @ blk"
      "layer1_visible_p1 (1/100) near \<longrightarrow> blk = [x near, y near, z near, x far, y far, z far]"
    by blast
  from a(1,2) have nf: "near = \<lparr>x = 0, y = 0, z = 943/8000\<rparr>" "far = \<lparr>x = 0, y = 0, z = 3/25\<rparr>"
    by (simp_all add: demo_spark_updated)
  from a(5) v1 have blk: "blk = [0, 0, 943/8000, 0, 0, 3/25]" by (simp add: nf)
  have p1: "\<exists>ps' cs'. particleStep_p1 (1/2) demo_spark (replicate 6 0, replicate 6 0, 0, 0) =
        Inr (SparkPoint_update_p1 (1/2) demo_spark, ps', cs', 6, 6) \<and>
      take 6 ps' = [0, 0, 943/8000, 0, 0, 3/25]"
  proof -
    have l6: "0 + length blk = 6" by (simp add: blk)
    have "take 6 ps' = [0, 0, 943/8000, 0, 0, 3/25]"
      using a(4) [unfolded l6] by (simp add: blk)
    with a(3) [unfolded l6] show ?thesis by blast
  qed
  from inst c obtain near2 far2 cs2 blk2 where
    b: "one (SparkPoint_update_p2 (1/2) demo_spark) = Some near2"
      "two (SparkPoint_update_p2 (1/2) demo_spark) = Some far2"
      "particleStep_p2 (1/2) demo_spark ([], []) =
         Inr (SparkPoint_update_p2 (1/2) demo_spark, [] @ blk2, cs2)"
      "layer1_visible_p2 (1/100) near2 \<longrightarrow> blk2 = [x near2, y near2, z near2, x far2, y far2, z far2]"
    by blast
  from b(1,2) have nf2: "near2 = \<lparr>x = 0, y = 0, z = 449/4000\<rparr>" "far2 = \<lparr>x = 0, y = 0, z = 3/25\<rparr>"
    by (simp_all add: demo_spark_updated)
  from b(4) v2 have blk2: "blk2 = [0, 0, 449/4000, 0, 0, 3/25]" by (simp add: nf2)
  have p2: "\<exists>cs'. particleStep_p2 (1/2) demo_spark ([], []) =
        Inr (SparkPoint_update_p2 (1/2) demo_spark, [0, 0, 449/4000, 0, 0, 3/25], cs')"
    using b(3) unfolding blk2 by auto
  from v1 w2 p1 p2 show ?thesis by blast
qed

end
